theory Spec2Isabelle
  imports Complex_Main
begin

section \<open>Heat pump simulator: numbers, errors and sequences\<close>

text \<open>
  The simulator computes with Python and numpy floating point numbers. They are
  idealised here as the real numbers: rounding and overflow are not modelled. Where
  Python raises an exception the model returns \<open>Inl\<close> of that exception. Where numpy
  or Python carries on with \<open>inf\<close>, \<open>nan\<close> or a complex number (a numpy division by
  zero, a fractional power of a negative float) the value is not a real number, and the
  model stops with \<open>NonReal\<close>, so that no theorem speaks about such a run.
\<close>

datatype error =
    ValueError
  | KeyError
  | ZeroDivisionError
  | IndexError
  | TypeError
  | NonReal

text \<open>Sequencing of a computation that may raise: the first error wins.\<close>

definition bindE :: "error + 'a \<Rightarrow> ('a \<Rightarrow> error + 'b) \<Rightarrow> error + 'b" where
  "bindE m f = (case m of Inl e \<Rightarrow> Inl e | Inr x \<Rightarrow> f x)"

text \<open>
  The aggregate integrals are called with ``array-like'' arguments. Two kinds reach
  them: a Python list (what \<open>euler\<close> returns after \<open>.tolist()\<close>) and a numpy array. They
  differ in \<open>*\<close>: a list times an integer is the list repeated, an array times an integer
  is the array scaled.
\<close>

datatype pyseq = PyList "real list" | NdArray "real list"

fun seq_items :: "pyseq \<Rightarrow> real list" where
  "seq_items (PyList xs) = xs"
| "seq_items (NdArray xs) = xs"

definition seq_len :: "pyseq \<Rightarrow> nat" where
  "seq_len s = length (seq_items s)"

fun seq_mul_int :: "pyseq \<Rightarrow> nat \<Rightarrow> pyseq" where
  "seq_mul_int (PyList xs) n = PyList (concat (replicate n xs))"
| "seq_mul_int (NdArray xs) n = NdArray (map (\<lambda>x. x * real n) xs)"

text \<open>Reading \<open>s[i]\<close> at an index that is not negative: out of range raises IndexError.\<close>

definition seq_index :: "pyseq \<Rightarrow> nat \<Rightarrow> error + real" where
  "seq_index s i = (if i < seq_len s then Inr (seq_items s ! i) else Inl IndexError)"

section \<open>formulae.py: the aggregate energy integrals\<close>

text \<open>
  The loop shared, word for word, by \<open>calculate_total_energy_consumption\<close>,
  \<open>calculate_total_heat_transfer\<close> and \<open>calculate_total_heat_loss\<close>:
  \<^verbatim>\<open>
  for i in range(1, len(values)):
      delta_t = time_values[i] - time_values[i-1]
      step = values[i] * delta_t
      total += step
  \<close>
  The list argument holds the indices still to visit, the last argument is the running total.
\<close>

fun integral_loop :: "pyseq \<Rightarrow> pyseq \<Rightarrow> nat list \<Rightarrow> real \<Rightarrow> error + real" where
  "integral_loop vals ts [] acc = Inr acc"
| "integral_loop vals ts (i # rest) acc =
     bindE (seq_index ts i) (\<lambda>t_i.
     bindE (seq_index ts (i - 1)) (\<lambda>t_prev.
     bindE (seq_index vals i) (\<lambda>v.
       integral_loop vals ts rest (acc + v * (t_i - t_prev)))))"

definition calculate_total_energy_consumption :: "pyseq \<Rightarrow> pyseq \<Rightarrow> error + real" where
  "calculate_total_energy_consumption Pin_values time_values =
     (let time_values' = seq_mul_int time_values 3600
      in integral_loop Pin_values time_values' [1..<seq_len Pin_values] 0)"

definition calculate_total_heat_transfer :: "pyseq \<Rightarrow> pyseq \<Rightarrow> error + real" where
  "calculate_total_heat_transfer qtransfer time_values =
     (let time_values' = seq_mul_int time_values 3600
      in integral_loop qtransfer time_values' [1..<seq_len qtransfer] 0)"

definition calculate_total_heat_loss :: "pyseq \<Rightarrow> pyseq \<Rightarrow> error + real" where
  "calculate_total_heat_loss heatloss time_values =
     (let time_values' = seq_mul_int time_values 3600
      in integral_loop heatloss time_values' [1..<seq_len heatloss] 0)"

text \<open>
  \<open>numpy.linspace(start, stop, num)\<close> with its default end point: \<open>num\<close> evenly spaced
  samples, the first \<open>start\<close> and (for \<open>num > 1\<close>) the last \<open>stop\<close>.
\<close>

definition linspace :: "real \<Rightarrow> real \<Rightarrow> nat \<Rightarrow> real list" where
  "linspace start stop num =
     (if num = 1 then [start]
      else map (\<lambda>i. start + real i * ((stop - start) / real (num - 1))) [0..<num])"

section \<open>external_data_handling.py: the parameter store\<close>

text \<open>
  A number loaded from YAML is a Python int or a Python float; the GUI stores floats.
  Only \<open>time_points\<close> is used where an int is required.
\<close>

datatype pynum = PyInt int | PyFloat real

fun num_real :: "pynum \<Rightarrow> real" where
  "num_real (PyInt k) = real_of_int k"
| "num_real (PyFloat x) = x"

text \<open>
  \<open>InputValues\<close>: \<open>data\<close> is \<open>None\<close> until \<open>load_data\<close> has run, then a dictionary of
  categories, each a dictionary of named entries. Every entry is taken to carry a numeric
  \<open>value\<close> field (\<open>.get("value", None)\<close> would hand out \<open>None\<close> for an entry without one).
\<close>

record InputValues =
  input_name :: string
  data :: "(string \<rightharpoonup> (string \<rightharpoonup> pynum)) option"

definition value_of :: "InputValues \<Rightarrow> string \<Rightarrow> string \<Rightarrow> error + pynum" where
  "value_of self ValueType ValueName =
     (case data self of
        None \<Rightarrow> Inl ValueError
      | Some d \<Rightarrow>
          (case d ValueType of
             None \<Rightarrow> Inl KeyError
           | Some entries \<Rightarrow>
               (case entries ValueName of
                  None \<Rightarrow> Inl KeyError
                | Some v \<Rightarrow> Inr v)))"

definition change_input_value :: "InputValues \<Rightarrow> string \<Rightarrow> string \<Rightarrow> pynum \<Rightarrow> error + InputValues" where
  "change_input_value self ValueType ValueName newValue =
     (case data self of
        None \<Rightarrow> Inl TypeError
      | Some d \<Rightarrow>
          (case d ValueType of
             None \<Rightarrow> Inl KeyError
           | Some entries \<Rightarrow>
               (case entries ValueName of
                  None \<Rightarrow> Inl KeyError
                | Some v \<Rightarrow>
                    Inr (self\<lparr>data := Some (d(ValueType \<mapsto> entries(ValueName \<mapsto> newValue)))\<rparr>))))"

section \<open>formulae.py: performance, heat flows and tank geometry\<close>

text \<open>
  \<open>COP(deltaT, a, b) = a + (b / deltaT)\<close>. The simulator passes the fitted parameters of
  the calibration, \<open>None\<close> when the calibration did not set them (TypeError), and a numpy
  float \<open>deltaT\<close>: at \<open>deltaT = 0\<close> numpy gives \<open>inf\<close> or \<open>nan\<close> and a warning, no exception.
\<close>

definition COP :: "real \<Rightarrow> real option \<Rightarrow> real option \<Rightarrow> error + real" where
  "COP deltaT a b =
     (case (a, b) of
        (Some a', Some b') \<Rightarrow> if deltaT = 0 then Inl NonReal else Inr (a' + (b' / deltaT))
      | _ \<Rightarrow> Inl TypeError)"

definition CalculateQload :: "InputValues \<Rightarrow> real \<Rightarrow> error + real" where
  "CalculateQload inputValues Tamb =
     bindE (value_of inputValues ''building_properties'' ''wall_area'') (\<lambda>Aw.
     bindE (value_of inputValues ''building_properties'' ''wall_U_value'') (\<lambda>Uw.
     bindE (value_of inputValues ''building_properties'' ''roof_area'') (\<lambda>Ar.
     bindE (value_of inputValues ''building_properties'' ''roof_U_value'') (\<lambda>Ur.
     bindE (value_of inputValues ''building_properties'' ''indoor_setpoint_temperature_K'') (\<lambda>Tsp.
       let Qload = num_real Aw * num_real Uw * (Tamb - num_real Tsp)
                 + num_real Ar * num_real Ur * (Tamb - num_real Tsp)
       in Inr (- 1 * Qload))))))"

definition CalculateQtransfer :: "InputValues \<Rightarrow> real \<Rightarrow> error + real" where
  "CalculateQtransfer inputValues Ttank =
     bindE (value_of inputValues ''heat_pump'' ''overall_heat_transfer_coefficient'') (\<lambda>Ucond.
     bindE (value_of inputValues ''heat_pump'' ''heat_transfer_area'') (\<lambda>Acond.
     bindE (value_of inputValues ''heat_pump'' ''fixed_condenser_temperature_K'') (\<lambda>Tcond.
       Inr (num_real Ucond * num_real Acond * (num_real Tcond - Ttank)))))"

definition CalculateQloss :: "InputValues \<Rightarrow> real \<Rightarrow> real \<Rightarrow> real \<Rightarrow> error + real" where
  "CalculateQloss inputValues Atank Ttank Tambient =
     bindE (value_of inputValues ''hot_water_tank'' ''heat_loss_coefficient'') (\<lambda>Uloss.
       Inr (num_real Uloss * Atank * (Ttank - Tambient)))"

definition vol_calc :: "InputValues \<Rightarrow> error + real" where
  "vol_calc inputValues =
     bindE (value_of inputValues ''hot_water_tank'' ''mass_of_water'') (\<lambda>water_mass.
       Inr (num_real water_mass / 1000))"

text \<open>
  \<open>tank_dimension\<close> returns the pair \<open>(h, r)\<close>, height first. Both arguments are Python
  numbers: dividing by \<open>math.pi * RHratio = 0\<close> raises, and \<open>x ** (1 / 3)\<close> of a negative
  float is a complex number.
\<close>

definition tank_dimension :: "real \<Rightarrow> real \<Rightarrow> error + (real \<times> real)" where
  "tank_dimension tank_vol RHratio =
     (if pi * RHratio = 0 then Inl ZeroDivisionError
      else if tank_vol / (pi * RHratio) < 0 then Inl NonReal
      else
        let r = (tank_vol / (pi * RHratio)) powr (1 / 3);
            h = RHratio * r
        in Inr (h, r))"

definition tank_SA :: "InputValues \<Rightarrow> real \<Rightarrow> error + real" where
  "tank_SA inputValues RHratio =
     bindE (vol_calc inputValues) (\<lambda>tank_vol.
     bindE (tank_dimension tank_vol RHratio) (\<lambda>(h, r).
       Inr (2 * pi * r * h + 2 * pi * r\<^sup>2)))"

text \<open>
  The last two aggregates, as the aggregator calls them: on Python floats
  (a zero divisor raises) and on Python lists (\<open>max\<close> of an empty list raises).
\<close>

definition calculate_total_eff :: "real \<Rightarrow> real \<Rightarrow> error + real" where
  "calculate_total_eff total_load total_qtransfer =
     (if total_qtransfer = 0 then Inl ZeroDivisionError
      else Inr ((total_load / total_qtransfer) * 100))"

definition Qmax :: "real list \<Rightarrow> real list \<Rightarrow> error + real" where
  "Qmax Pin cop =
     (if Pin = [] \<or> cop = [] then Inl ValueError
      else Inr (Max (set Pin) * Max (set cop)))"

section \<open>simulation.py: the Euler integrator\<close>

datatype pump = On | Off

text \<open>
  The simulator object. \<open>sim_fit_a\<close> and \<open>sim_fit_b\<close> are the attributes \<open>fit_a\<close> and
  \<open>fit_b\<close> copied from the calibration object when the simulator is built.
  \<open>interpolated_data\<close> is the ambient temperature interpolant (hours to Kelvin), a scipy
  object that returns numpy floats.
\<close>

record Simulator =
  inputValues :: InputValues
  interpolated_data :: "real \<Rightarrow> real"
  sim_fit_a :: "real option"
  sim_fit_b :: "real option"
  RHratio :: real
  DHW :: bool

text \<open>What \<open>euler\<close> fixes before its loop, and the arrays and pump status the loop updates.\<close>

record euler_env =
  T_off :: real
  T_on :: real
  T_inlet :: real
  step_size :: real
  time_values :: "real list"
  Atank :: real

record euler_state =
  pump_status :: pump
  Ttank_values :: "real list"
  cop_values :: "real list"
  heat_load_values :: "real list"
  heat_loss_values :: "real list"
  Pin_values :: "real list"
  Qtransfer_values :: "real list"

text \<open>The quantities one pass of the loop body computes.\<close>

record step_out =
  new_status :: pump
  out_Qload :: real
  out_Qtransfer :: real
  out_Qloss :: real
  out_COP :: real
  out_Pin :: real
  out_QDHW :: real
  out_Ttank :: real

text \<open>
  The hysteresis rule of the loop body:
  \<^verbatim>\<open>
  if Ttank >= self.T_off:   pump_status = 'off'
  elif Ttank <= self.T_on:  pump_status = 'on'
  \<close>
\<close>

definition update_pump_status :: "real \<Rightarrow> real \<Rightarrow> pump \<Rightarrow> real \<Rightarrow> pump" where
  "update_pump_status Toff Ton status Ttank =
     (if Ttank \<ge> Toff then Off
      else if Ttank \<le> Ton then On
      else status)"

text \<open>
  The loop body up to its stores, for the previous time \<open>t\<close>, the previous tank
  temperature \<open>Ttank\<close> and the pump status so far. \<open>dhw_interp_profile\<close> is the interpolant
  that \<open>DHW.get_dhw_profile()\<close> returns. The numerator of \<open>dTdt\<close> is a numpy float, so a
  zero thermal capacity gives \<open>inf\<close> or \<open>nan\<close> and no exception.
\<close>

definition euler_body ::
  "Simulator \<Rightarrow> (real \<Rightarrow> real) \<Rightarrow> euler_env \<Rightarrow> pump \<Rightarrow> real \<Rightarrow> real \<Rightarrow> error + step_out" where
  "euler_body self dhw_interp_profile env status t Ttank =
     (let Tamb = interpolated_data self (t / 3600);
          QDHW = (if DHW self then dhw_interp_profile (t / 3600) * 4186 * (Ttank - T_inlet env)
                  else 0);
          status' = update_pump_status (T_off env) (T_on env) status Ttank
      in
      bindE (CalculateQload (inputValues self) Tamb) (\<lambda>Qload.
      bindE (if status' = On then CalculateQtransfer (inputValues self) Ttank else Inr 0) (\<lambda>Qtransfer.
      bindE (CalculateQloss (inputValues self) (Atank env) Ttank Tamb) (\<lambda>Qloss.
      bindE (if status' = On then COP (65 + 273.15 - Tamb) (sim_fit_a self) (sim_fit_b self)
             else Inr 0) (\<lambda>cop.
      let Pin = (if cop > 0 then Qtransfer / cop else 0) in
      bindE (value_of (inputValues self) ''hot_water_tank'' ''total_thermal_capacity'') (\<lambda>capacity.
      if num_real capacity = 0 then Inl NonReal
      else
        let dTdt = (Qtransfer - Qload - Qloss - QDHW) / num_real capacity
        in Inr \<lparr>new_status = status', out_Qload = Qload, out_Qtransfer = Qtransfer,
                 out_Qloss = Qloss, out_COP = cop, out_Pin = Pin, out_QDHW = QDHW,
                 out_Ttank = Ttank + step_size env * dTdt\<rparr>))))))"

text \<open>
  One pass of \<open>for i in range(1, self.num_points)\<close>: read index \<open>i - 1\<close>, compute, store
  at index \<open>i\<close>. Nothing stores \<open>QDHW\<close>.
\<close>

definition euler_step ::
  "Simulator \<Rightarrow> (real \<Rightarrow> real) \<Rightarrow> euler_env \<Rightarrow> nat \<Rightarrow> euler_state \<Rightarrow> error + euler_state" where
  "euler_step self dhw_interp_profile env i s =
     (let t = time_values env ! (i - 1);
          Ttank = Ttank_values s ! (i - 1)
      in
      bindE (euler_body self dhw_interp_profile env (pump_status s) t Ttank) (\<lambda>out.
        Inr \<lparr>pump_status = new_status out,
             Ttank_values = (Ttank_values s)[i := out_Ttank out],
             cop_values = (cop_values s)[i := out_COP out],
             heat_load_values = (heat_load_values s)[i := out_Qload out],
             heat_loss_values = (heat_loss_values s)[i := out_Qloss out],
             Pin_values = (Pin_values s)[i := out_Pin out],
             Qtransfer_values = (Qtransfer_values s)[i := out_Qtransfer out]\<rparr>))"

fun euler_loop ::
  "Simulator \<Rightarrow> (real \<Rightarrow> real) \<Rightarrow> euler_env \<Rightarrow> nat list \<Rightarrow> euler_state \<Rightarrow> error + euler_state" where
  "euler_loop self dhw_interp_profile env [] s = Inr s"
| "euler_loop self dhw_interp_profile env (i # rest) s =
     bindE (euler_step self dhw_interp_profile env i s)
       (euler_loop self dhw_interp_profile env rest)"

text \<open>
  The eight values \<open>euler\<close> returns, in the order of its tuple. The first seven are
  Python lists (\<open>.tolist()\<close>); the last is a list or the string \<open>"DHW Simulation Off"\<close>.
\<close>

datatype dhw_return = Series "real list" | Text string

record euler_result =
  res_time :: "real list"
  res_Ttank :: "real list"
  res_heat_load :: "real list"
  res_heat_loss :: "real list"
  res_cop :: "real list"
  res_Pin :: "real list"
  res_Qtransfer :: "real list"
  res_QDHW :: dhw_return

text \<open>
  \<open>euler\<close> before its loop: the lookups, the time grid, the step size, the initial pump
  status, the zero arrays, the tank surface and \<open>Ttank_values[0]\<close>. \<open>np.linspace\<close> wants
  an int that is not negative; \<open>total_time / (num_points - 1)\<close> divides Python numbers;
  \<open>Ttank_values[0] = ...\<close> needs a first element. The result is the number of points, the
  fixed values and the state the loop starts from.
\<close>

definition euler_setup :: "Simulator \<Rightarrow> error + (nat \<times> euler_env \<times> euler_state)" where
  "euler_setup self =
     bindE (value_of (inputValues self) ''heat_pump'' ''off_temperature_threshold_K'') (\<lambda>Toff.
     bindE (value_of (inputValues self) ''heat_pump'' ''on_temperature_threshold_K'') (\<lambda>Ton.
     bindE (value_of (inputValues self) ''simulation_parameters'' ''total_time_seconds'') (\<lambda>total_time.
     bindE (value_of (inputValues self) ''simulation_parameters'' ''time_points'') (\<lambda>num_points.
     case num_points of
       PyFloat x \<Rightarrow> Inl TypeError
     | PyInt n \<Rightarrow>
         if n < 0 then Inl ValueError
         else if n - 1 = 0 then Inl ZeroDivisionError
         else
           bindE (value_of (inputValues self) ''initial_conditions'' ''initial_tank_temperature_K'')
             (\<lambda>initial_tank_temp.
           bindE (tank_SA (inputValues self) (RHratio self)) (\<lambda>A.
           if n = 0 then Inl IndexError
           else
             let env = \<lparr>T_off = num_real Toff, T_on = num_real Ton, T_inlet = 300,
                        step_size = num_real total_time / real_of_int (n - 1),
                        time_values = linspace 0 (num_real total_time) (nat n),
                        Atank = A\<rparr>;
                 zeros = replicate (nat n) 0;
                 s0 = \<lparr>pump_status =
                         (if num_real initial_tank_temp < num_real Ton then On else Off),
                       Ttank_values = zeros[0 := num_real initial_tank_temp],
                       cop_values = zeros, heat_load_values = zeros, heat_loss_values = zeros,
                       Pin_values = zeros, Qtransfer_values = zeros\<rparr>
             in Inr (nat n, env, s0)))))))"

text \<open>
  What \<open>euler\<close> returns after its loop. The DHW channel is \<open>QDHW_values.tolist()\<close>, the
  array of zeros made before the loop.
\<close>

definition euler_return :: "Simulator \<Rightarrow> nat \<Rightarrow> euler_env \<Rightarrow> euler_state \<Rightarrow> euler_result" where
  "euler_return self num_points env s =
     \<lparr>res_time = map (\<lambda>t. t / 3600) (time_values env),
      res_Ttank = Ttank_values s,
      res_heat_load = heat_load_values s,
      res_heat_loss = heat_loss_values s,
      res_cop = cop_values s,
      res_Pin = Pin_values s,
      res_Qtransfer = Qtransfer_values s,
      res_QDHW = (if DHW self then Series (replicate num_points 0)
                  else Text ''DHW Simulation Off'')\<rparr>"

definition euler :: "Simulator \<Rightarrow> (real \<Rightarrow> real) \<Rightarrow> error + euler_result" where
  "euler self dhw_interp_profile =
     bindE (euler_setup self) (\<lambda>(num_points, env, s0).
     bindE (euler_loop self dhw_interp_profile env [1..<num_points] s0) (\<lambda>s.
       Inr (euler_return self num_points env s)))"

text \<open>
  The pump status after the hysteresis rule has seen a sequence of tank temperatures.
\<close>

definition pump_after :: "euler_env \<Rightarrow> pump \<Rightarrow> real list \<Rightarrow> pump" where
  "pump_after env status temps = foldl (update_pump_status (T_off env) (T_on env)) status temps"

text \<open>
  \<open>calculate_performance\<close>, as \<open>simulate\<close> calls it: every argument is one of the Python
  lists that \<open>euler\<close> returned.
\<close>

definition calculate_performance ::
  "real list \<Rightarrow> real list \<Rightarrow> real list \<Rightarrow> real list \<Rightarrow> real list \<Rightarrow> real list \<Rightarrow> real list
     \<Rightarrow> error + (real \<times> real \<times> real)" where
  "calculate_performance time_vs temperature_vs heat_load_vs heat_loss_vs cop_vs Pin_vs Qtransfer_vs =
     bindE (calculate_total_energy_consumption (PyList Pin_vs) (PyList time_vs)) (\<lambda>total_energy.
     bindE (calculate_total_heat_transfer (PyList Qtransfer_vs) (PyList time_vs)) (\<lambda>total_qtransfer.
     bindE (calculate_total_heat_loss (PyList heat_load_vs) (PyList time_vs)) (\<lambda>hl_tot.
     bindE (calculate_total_eff hl_tot total_qtransfer) (\<lambda>total_eff.
     bindE (Qmax Pin_vs cop_vs) (\<lambda>max_out.
       Inr (total_energy, total_eff, max_out))))))"

text \<open>The dictionary \<open>store_values\<close> writes to \<open>simulation_results.json\<close>.\<close>

record results =
  time_json :: "real list"
  temperature_json :: "real list"
  heat_load_json :: "real list"
  heat_loss_json :: "real list"
  COP_json :: "real list"
  Power_consumption_json :: "real list"
  Total_Energy_Consumption :: real
  Total_system_efficiency :: real
  Heat_pump_maximum_output :: real
  Domestic_Hot_Water_Loss :: dhw_return

definition store_values ::
  "real list \<Rightarrow> real list \<Rightarrow> real list \<Rightarrow> real list \<Rightarrow> real list \<Rightarrow> real list
     \<Rightarrow> real \<Rightarrow> real \<Rightarrow> real \<Rightarrow> dhw_return \<Rightarrow> results" where
  "store_values time_vs temperature_vs heat_load_vs heat_loss_vs cop_vs Pin_vs
       total_energy total_eff max_out QDHW =
     \<lparr>time_json = time_vs,
      temperature_json = map (\<lambda>temp. temp - 273.15) temperature_vs,
      heat_load_json = heat_load_vs,
      heat_loss_json = heat_loss_vs,
      COP_json = cop_vs,
      Power_consumption_json = Pin_vs,
      Total_Energy_Consumption = total_energy,
      Total_system_efficiency = total_eff,
      Heat_pump_maximum_output = max_out,
      Domestic_Hot_Water_Loss = QDHW\<rparr>"

definition simulate :: "Simulator \<Rightarrow> (real \<Rightarrow> real) \<Rightarrow> error + results" where
  "simulate self dhw_interp_profile =
     bindE (euler self dhw_interp_profile) (\<lambda>r.
     bindE (calculate_performance (res_time r) (res_Ttank r) (res_heat_load r) (res_heat_loss r)
              (res_cop r) (res_Pin r) (res_Qtransfer r)) (\<lambda>(total_energy, total_eff, max_out).
       Inr (store_values (res_time r) (res_Ttank r) (res_heat_load r) (res_heat_loss r)
              (res_cop r) (res_Pin r) total_energy total_eff max_out (res_QDHW r))))"

section \<open>external_data_handling.py: calibration of the COP model\<close>

text \<open>
  \<open>ManufacturerCOP\<close>: the fitted parameters are \<open>None\<close> until a calibration sets them.
\<close>

record ManufacturerCOP =
  file_name :: string
  fit_a :: "real option"
  fit_b :: "real option"
  std_error :: "real option"

definition ManufacturerCOP_init :: "string \<Rightarrow> ManufacturerCOP" where
  "ManufacturerCOP_init name = \<lparr>file_name = name, fit_a = None, fit_b = None, std_error = None\<rparr>"

text \<open>
  The body of the \<open>try\<close> block of \<open>get_cop_parameters\<close>. Reading the YAML file and building
  the data frame are outside the program: \<open>loaded\<close> is their outcome, the rows
  \<open>(outdoor_temp_C, COP_noisy)\<close> or the exception raised. \<open>curve_fit\<close> is scipy's: given
  the \<open>deltaT\<close> and COP columns it returns the parameters \<open>(a, b)\<close> and the diagonal of
  their covariance matrix, or raises. The variances are taken to be finite and not
  negative (numpy's square root of anything else is \<open>nan\<close> or \<open>inf\<close>).
\<close>

definition cop_fit ::
  "ManufacturerCOP \<Rightarrow> error + (real \<times> real) list
     \<Rightarrow> (real list \<Rightarrow> real list \<Rightarrow> error + ((real \<times> real) \<times> (real \<times> real)))
     \<Rightarrow> real \<Rightarrow> error + ManufacturerCOP" where
  "cop_fit self loaded curve_fit condenserTemp =
     bindE loaded (\<lambda>cop_df.
       let deltaT = map (\<lambda>(outdoor_temp_C, COP_noisy). (condenserTemp - 273.15) - outdoor_temp_C) cop_df;
           copNoisy = map (\<lambda>(outdoor_temp_C, COP_noisy). COP_noisy) cop_df
       in
       bindE (curve_fit deltaT copNoisy) (\<lambda>(parameters, variances).
         Inr (self\<lparr>fit_a := Some (fst parameters),
                   fit_b := Some (snd parameters),
                   std_error := Some ((sqrt (fst variances) + sqrt (snd variances)) / 2)\<rparr>)))"

text \<open>
  \<open>get_cop_parameters\<close>: the \<open>try\<close> block under \<open>except Exception as e: print(...)\<close>. The
  result is how the call ends for its caller: \<open>Inr\<close> of the object afterwards and the
  exceptions whose message was printed, or \<open>Inl\<close> of an exception that reaches the caller.
\<close>

definition get_cop_parameters ::
  "ManufacturerCOP \<Rightarrow> error + (real \<times> real) list
     \<Rightarrow> (real list \<Rightarrow> real list \<Rightarrow> error + ((real \<times> real) \<times> (real \<times> real)))
     \<Rightarrow> real \<Rightarrow> error + (ManufacturerCOP \<times> error list)" where
  "get_cop_parameters self loaded curve_fit condenserTemp =
     (case cop_fit self loaded curve_fit condenserTemp of
        Inl e \<Rightarrow> Inr (self, [e])
      | Inr self' \<Rightarrow> Inr (self', []))"

text \<open>\<open>Simulator.__init__\<close>, as \<open>Main.py\<close> calls it with the calibration object.\<close>

definition Simulator_init ::
  "InputValues \<Rightarrow> (real \<Rightarrow> real) \<Rightarrow> ManufacturerCOP \<Rightarrow> real \<Rightarrow> bool \<Rightarrow> Simulator" where
  "Simulator_init input_values interpolated manufacturer_cop ratio DHWsimulationBool =
     \<lparr>inputValues = input_values, interpolated_data = interpolated,
      sim_fit_a = fit_a manufacturer_cop, sim_fit_b = fit_b manufacturer_cop,
      RHratio = ratio, DHW = DHWsimulationBool\<rparr>"

section \<open>The invariant of the integration loop\<close>

text \<open>
  \<open>recorded_at\<close>: index \<open>i\<close> of every array holds what the loop body computes from the
  time and the tank temperature at index \<open>i - 1\<close> and from the pump status that the
  hysteresis rule gives after the temperatures before it.
\<close>

definition recorded_at ::
  "Simulator \<Rightarrow> (real \<Rightarrow> real) \<Rightarrow> euler_env \<Rightarrow> pump \<Rightarrow> euler_state \<Rightarrow> nat \<Rightarrow> bool" where
  "recorded_at self dhw env init s i =
     (\<exists>out.
        euler_body self dhw env (pump_after env init (take (i - 1) (Ttank_values s)))
          (time_values env ! (i - 1)) (Ttank_values s ! (i - 1)) = Inr out
        \<and> new_status out = pump_after env init (take i (Ttank_values s))
        \<and> Ttank_values s ! i = out_Ttank out
        \<and> cop_values s ! i = out_COP out
        \<and> heat_load_values s ! i = out_Qload out
        \<and> heat_loss_values s ! i = out_Qloss out
        \<and> Pin_values s ! i = out_Pin out
        \<and> Qtransfer_values s ! i = out_Qtransfer out)"

text \<open>
  \<open>run_inv\<close>: what holds after the passes \<open>1, ..., k - 1\<close> of a loop over arrays of
  length \<open>N\<close> that started in \<open>s0\<close>.
\<close>

definition run_inv ::
  "Simulator \<Rightarrow> (real \<Rightarrow> real) \<Rightarrow> euler_env \<Rightarrow> euler_state \<Rightarrow> nat \<Rightarrow> nat \<Rightarrow> euler_state \<Rightarrow> bool" where
  "run_inv self dhw env s0 N k s =
     (length (Ttank_values s) = N \<and> length (cop_values s) = N
      \<and> length (heat_load_values s) = N \<and> length (heat_loss_values s) = N
      \<and> length (Pin_values s) = N \<and> length (Qtransfer_values s) = N
      \<and> Ttank_values s ! 0 = Ttank_values s0 ! 0 \<and> cop_values s ! 0 = cop_values s0 ! 0
      \<and> heat_load_values s ! 0 = heat_load_values s0 ! 0
      \<and> heat_loss_values s ! 0 = heat_loss_values s0 ! 0
      \<and> Pin_values s ! 0 = Pin_values s0 ! 0
      \<and> Qtransfer_values s ! 0 = Qtransfer_values s0 ! 0
      \<and> pump_status s = pump_after env (pump_status s0) (take (k - 1) (Ttank_values s))
      \<and> (\<forall>i. 1 \<le> i \<and> i < k \<longrightarrow> recorded_at self dhw env (pump_status s0) s i))"

section \<open>Concrete inputs\<close>

text \<open>A store whose tank holds \<open>2000 * pi\<close> kg of water.\<close>

definition tank_store :: InputValues where
  "tank_store = \<lparr>input_name = ''inputs.yaml'',
      data = Some [''hot_water_tank'' \<mapsto> [''mass_of_water'' \<mapsto> PyFloat (2000 * pi)]]\<rparr>"

text \<open>
  A small run: three time points over 20 s, a constant ambient temperature of 280 K, a
  tank of surface \<open>6 * pi\<close> that starts at 310 K, below the on threshold. The pump heats in
  the first pass and is switched off in the second, when the tank has reached 327 K.
\<close>

definition demo_store :: InputValues where
  "demo_store = \<lparr>input_name = ''inputs.yaml'',
     data = Some
       [''heat_pump'' \<mapsto>
          [''off_temperature_threshold_K'' \<mapsto> PyInt 325,
           ''on_temperature_threshold_K'' \<mapsto> PyInt 315,
           ''overall_heat_transfer_coefficient'' \<mapsto> PyInt 10,
           ''heat_transfer_area'' \<mapsto> PyInt 1,
           ''fixed_condenser_temperature_K'' \<mapsto> PyInt 340],
        ''simulation_parameters'' \<mapsto>
          [''total_time_seconds'' \<mapsto> PyInt 20,
           ''time_points'' \<mapsto> PyInt 3],
        ''initial_conditions'' \<mapsto>
          [''initial_tank_temperature_K'' \<mapsto> PyInt 310],
        ''building_properties'' \<mapsto>
          [''wall_area'' \<mapsto> PyInt 10,
           ''wall_U_value'' \<mapsto> PyInt 1,
           ''roof_area'' \<mapsto> PyInt 0,
           ''roof_U_value'' \<mapsto> PyInt 0,
           ''indoor_setpoint_temperature_K'' \<mapsto> PyInt 290],
        ''hot_water_tank'' \<mapsto>
          [''heat_loss_coefficient'' \<mapsto> PyFloat (1 / (6 * pi)),
           ''mass_of_water'' \<mapsto> PyFloat (2000 * pi),
           ''total_thermal_capacity'' \<mapsto> PyInt 100]]\<rparr>"

definition demo_sim :: "bool \<Rightarrow> Simulator" where
  "demo_sim dhw_on = \<lparr>inputValues = demo_store, interpolated_data = (\<lambda>t. 280),
      sim_fit_a = Some 3, sim_fit_b = Some 58.15, RHratio = 2, DHW = dhw_on\<rparr>"

definition demo_env :: euler_env where
  "demo_env = \<lparr>T_off = 325, T_on = 315, T_inlet = 300, step_size = 10,
                time_values = [0, 10, 20], Atank = 6 * pi\<rparr>"

definition demo_s0 :: euler_state where
  "demo_s0 = \<lparr>pump_status = On, Ttank_values = [310, 0, 0], cop_values = [0, 0, 0],
      heat_load_values = [0, 0, 0], heat_loss_values = [0, 0, 0], Pin_values = [0, 0, 0],
      Qtransfer_values = [0, 0, 0]\<rparr>"

definition demo_s1 :: euler_state where
  "demo_s1 = \<lparr>pump_status = On, Ttank_values = [310, 327, 0], cop_values = [0, 4, 0],
      heat_load_values = [0, 100, 0], heat_loss_values = [0, 30, 0], Pin_values = [0, 75, 0],
      Qtransfer_values = [0, 300, 0]\<rparr>"

definition demo_s2 :: euler_state where
  "demo_s2 = \<lparr>pump_status = Off, Ttank_values = [310, 327, 312.3], cop_values = [0, 4, 0],
      heat_load_values = [0, 100, 100], heat_loss_values = [0, 30, 47], Pin_values = [0, 75, 0],
      Qtransfer_values = [0, 300, 0]\<rparr>"

definition demo_result :: euler_result where
  "demo_result = \<lparr>res_time = [0, 10 / 3600, 20 / 3600], res_Ttank = [310, 327, 312.3],
      res_heat_load = [0, 100, 100], res_heat_loss = [0, 30, 47], res_cop = [0, 4, 0],
      res_Pin = [0, 75, 0], res_Qtransfer = [0, 300, 0],
      res_QDHW = Text ''DHW Simulation Off''\<rparr>"

text \<open>
  The same run with DHW enabled and a constant draw of \<open>1 / 4186\<close> kg/s, so that the heat
  draw is the excess of the tank temperature over the inlet temperature.
\<close>

definition dhw_flow :: "real \<Rightarrow> real" where
  "dhw_flow t = 1 / 4186"

definition dhw_s1 :: euler_state where
  "dhw_s1 = \<lparr>pump_status = On, Ttank_values = [310, 326, 0], cop_values = [0, 4, 0],
      heat_load_values = [0, 100, 0], heat_loss_values = [0, 30, 0], Pin_values = [0, 75, 0],
      Qtransfer_values = [0, 300, 0]\<rparr>"

definition dhw_s2 :: euler_state where
  "dhw_s2 = \<lparr>pump_status = Off, Ttank_values = [310, 326, 308.8], cop_values = [0, 4, 0],
      heat_load_values = [0, 100, 100], heat_loss_values = [0, 30, 46], Pin_values = [0, 75, 0],
      Qtransfer_values = [0, 300, 0]\<rparr>"

definition dhw_result :: euler_result where
  "dhw_result = \<lparr>res_time = [0, 10 / 3600, 20 / 3600], res_Ttank = [310, 326, 308.8],
      res_heat_load = [0, 100, 100], res_heat_loss = [0, 30, 46], res_cop = [0, 4, 0],
      res_Pin = [0, 75, 0], res_Qtransfer = [0, 300, 0],
      res_QDHW = Series [0, 0, 0]\<rparr>"



text \<open>The simulator of the small run with a fitted COP model that is constantly zero.\<close>

definition zero_cop_sim :: Simulator where
  "zero_cop_sim = \<lparr>inputValues = demo_store, interpolated_data = (\<lambda>t. 280),
      sim_fit_a = Some 0, sim_fit_b = Some 0, RHratio = 2, DHW = False\<rparr>"

text \<open>
  The simulator that \<open>Main.py\<close> would build over the store of the small run from a
  calibration object whose parameters were never set.
\<close>

definition uncalibrated_sim :: Simulator where
  "uncalibrated_sim =
     Simulator_init demo_store (\<lambda>t. 280)
       (ManufacturerCOP_init ''heat_pump_cop_synthetic_full.yaml'') 2 False"

section \<open>Facts about the integrals\<close>

lemma bindE_Inr [simp]: "bindE (Inr x) f = f x"
  by (simp add: bindE_def)

lemma bindE_Inl [simp]: "bindE (Inl e) f = Inl e"
  by (simp add: bindE_def)

lemma bindE_eq_Inr: "bindE m f = Inr y \<longleftrightarrow> (\<exists>x. m = Inr x \<and> f x = Inr y)"
  by (cases m) simp_all

lemma integral_loop_in_range:
  assumes "\<forall>i \<in> set idx. 1 \<le> i \<and> i < seq_len vals \<and> i < seq_len ts"
  shows "integral_loop vals ts idx acc =
           Inr (acc + (\<Sum>i \<leftarrow> idx. seq_items vals ! i *
                  (seq_items ts ! i - seq_items ts ! (i - 1))))"
  using assms
proof (induction idx arbitrary: acc)
  case Nil
  then show ?case by simp
next
  case (Cons i rest)
  then have "i < seq_len ts" "i - 1 < seq_len ts" "i < seq_len vals"
    by auto
  with Cons show ?case
    by (simp add: seq_index_def add.assoc)
qed

lemma concat_replicate_nth:
  "i < length xs \<Longrightarrow> 0 < n \<Longrightarrow> concat (replicate n xs) ! i = xs ! i"
  by (cases n) (simp_all add: nth_append)

lemma length_concat_replicate: "length (concat (replicate n xs)) = n * length xs"
  by (induction n) simp_all

lemma telescope_upt:
  fixes f :: "nat \<Rightarrow> real"
  shows "1 \<le> n \<Longrightarrow> (\<Sum>i \<leftarrow> [1..<n]. v * (f i - f (i - 1))) = v * (f (n - 1) - f 0)"
proof (induction n)
  case 0
  then show ?case by simp
next
  case (Suc n)
  show ?case
  proof (cases "n = 0")
    case True
    then show ?thesis by simp
  next
    case False
    then have "1 \<le> n" by simp
    with Suc.IH have "(\<Sum>i \<leftarrow> [1..<n]. v * (f i - f (i - 1))) = v * (f (n - 1) - f 0)" .
    then show ?thesis using False
      by (simp add: algebra_simps)
  qed
qed

text \<open>With a numpy array of times the loop sums over seconds.\<close>

lemma integral_ndarray:
  assumes "length vs \<le> length ts"
  shows "integral_loop (NdArray vs) (seq_mul_int (NdArray ts) 3600) [1..<length vs] 0 =
           Inr (\<Sum>i \<leftarrow> [1..<length vs]. vs ! i * (ts ! i * 3600 - ts ! (i - 1) * 3600))"
proof -
  let ?ts' = "seq_mul_int (NdArray ts) 3600"
  have "integral_loop (NdArray vs) ?ts' [1..<length vs] 0 =
     Inr (0 + (\<Sum>i \<leftarrow> [1..<length vs]. seq_items (NdArray vs) ! i *
        (seq_items ?ts' ! i - seq_items ?ts' ! (i - 1))))"
    using assms by (intro integral_loop_in_range) (auto simp: seq_len_def)
  also have "(\<Sum>i \<leftarrow> [1..<length vs]. seq_items (NdArray vs) ! i *
        (seq_items ?ts' ! i - seq_items ?ts' ! (i - 1)))
     = (\<Sum>i \<leftarrow> [1..<length vs]. vs ! i * (ts ! i * 3600 - ts ! (i - 1) * 3600))"
    using assms by (intro arg_cong[where f=sum_list] map_cong) auto
  finally show ?thesis by simp
qed

text \<open>With a Python list of times the loop sums over the times as given.\<close>

lemma integral_pylist:
  assumes "length vs \<le> length ts"
  shows "integral_loop (PyList vs) (seq_mul_int (PyList ts) 3600) [1..<length vs] 0 =
           Inr (\<Sum>i \<leftarrow> [1..<length vs]. vs ! i * (ts ! i - ts ! (i - 1)))"
proof -
  let ?ts' = "seq_mul_int (PyList ts) 3600"
  have "integral_loop (PyList vs) ?ts' [1..<length vs] 0 =
     Inr (0 + (\<Sum>i \<leftarrow> [1..<length vs]. seq_items (PyList vs) ! i *
        (seq_items ?ts' ! i - seq_items ?ts' ! (i - 1))))"
    using assms
    by (intro integral_loop_in_range) (auto simp: seq_len_def length_concat_replicate)
  also have "(\<Sum>i \<leftarrow> [1..<length vs]. seq_items (PyList vs) ! i *
        (seq_items ?ts' ! i - seq_items ?ts' ! (i - 1)))
     = (\<Sum>i \<leftarrow> [1..<length vs]. vs ! i * (ts ! i - ts ! (i - 1)))"
    using assms
    by (intro arg_cong[where f=sum_list] map_cong) (auto simp: concat_replicate_nth)
  finally show ?thesis by simp
qed

lemma linspace_nth:
  "2 \<le> n \<Longrightarrow> i < n \<Longrightarrow> linspace a b n ! i = a + real i * ((b - a) / real (n - 1))"
  by (simp add: linspace_def)

lemma length_linspace: "length (linspace a b n) = n"
  by (simp add: linspace_def)

text \<open>
  Claim C2, as amended. For a constant series \<open>v\<close> over \<open>N \<ge> 2\<close> uniformly spaced times
  that span \<open>D\<close> seconds, given in hours as a numpy array,
  \<open>calculate_total_energy_consumption\<close> returns \<open>v * D\<close>: all \<open>N - 1\<close> intervals are
  counted, and only the first sample's value is unused.
\<close>

theorem constant_series_energy:
  assumes "2 \<le> N"
  shows "calculate_total_energy_consumption (NdArray (replicate N v))
           (NdArray (map (\<lambda>t. t / 3600) (linspace 0 D N))) = Inr (v * D)"
proof -
  let ?ts = "map (\<lambda>t. t / 3600) (linspace 0 D N)"
  let ?f = "\<lambda>i. ?ts ! i * 3600"
  have "calculate_total_energy_consumption (NdArray (replicate N v)) (NdArray ?ts)
     = Inr (\<Sum>i \<leftarrow> [1..<N]. replicate N v ! i * (?ts ! i * 3600 - ?ts ! (i - 1) * 3600))"
    using integral_ndarray[of "replicate N v" ?ts]
    by (simp add: calculate_total_energy_consumption_def seq_len_def length_linspace)
  also have "(\<Sum>i \<leftarrow> [1..<N]. replicate N v ! i * (?ts ! i * 3600 - ?ts ! (i - 1) * 3600))
     = (\<Sum>i \<leftarrow> [1..<N]. v * (?f i - ?f (i - 1)))"
    by (intro arg_cong[where f=sum_list] map_cong) auto
  also have "\<dots> = v * (?f (N - 1) - ?f 0)"
    using assms by (intro telescope_upt) simp
  also have "\<dots> = v * D"
    using assms by (simp add: length_linspace linspace_nth)
  finally show ?thesis .
qed

theorem constant_series_energy_witness:
  "2 \<le> (10::nat) \<and>
   calculate_total_energy_consumption (NdArray (replicate 10 2))
     (NdArray (map (\<lambda>t. t / 3600) (linspace 0 900 10))) = Inr 1800"
  using constant_series_energy [of 10 2 900] by simp

text \<open>
  The claim as stated fails: for \<open>v = 1\<close> and \<open>D = 3600\<close> the stated value
  \<open>v * D * (N - 2) / (N - 1)\<close> is \<open>0\<close> at \<open>N = 2\<close> and \<open>1800\<close> at \<open>N = 3\<close>; the code returns
  \<open>3600\<close> both times.
\<close>

theorem constant_series_energy_counterexample:
  "calculate_total_energy_consumption (NdArray (replicate 2 1))
     (NdArray (map (\<lambda>t. t / 3600) (linspace 0 3600 2))) \<noteq> Inr (1 * 3600 * (2 - 2) / (2 - 1))
   \<and> calculate_total_energy_consumption (NdArray (replicate 3 1))
     (NdArray (map (\<lambda>t. t / 3600) (linspace 0 3600 3))) \<noteq> Inr (1 * 3600 * (3 - 2) / (3 - 1))"
  by (simp add: calculate_total_energy_consumption_def seq_len_def seq_index_def linspace_def
      numeral_2_eq_2 numeral_3_eq_3)

section \<open>Tank geometry\<close>

lemma cube_root_powr:
  fixes x :: real
  assumes "0 < x"
  shows "(x powr (1 / 3))\<^sup>2 * x powr (1 / 3) = x"
proof -
  have pos: "0 < x powr (1 / 3)" using assms by simp
  have "(x powr (1 / 3))\<^sup>2 * x powr (1 / 3) = (x powr (1 / 3)) ^ 3"
    by (simp only: power3_eq_cube power2_eq_square)
  also have "\<dots> = (x powr (1 / 3)) powr (real 3)"
    using pos by (simp only: powr_realpow)
  also have "\<dots> = x powr ((1 / 3) * real 3)"
    by (simp only: powr_powr)
  also have "\<dots> = x" using assms by simp
  finally show ?thesis .
qed


lemma tank_dimension_pos:
  assumes "0 < V" "0 < ratio"
  shows "tank_dimension V ratio =
           Inr (ratio * (V / (pi * ratio)) powr (1 / 3), (V / (pi * ratio)) powr (1 / 3))"
proof -
  have "pi * ratio \<noteq> 0" using assms by simp
  moreover have "\<not> V / (pi * ratio) < 0" using assms by (simp add: not_less)
  ultimately show ?thesis
    unfolding tank_dimension_def Let_def by (simp only: if_False)
qed

text \<open>
  Claim C9. For \<open>V > 0\<close> and \<open>ratio > 0\<close>, \<open>tank_dimension\<close> returns the radius
  \<open>r = (V / (pi * ratio)) ^ (1/3)\<close> and the height \<open>h = ratio * r\<close>; they satisfy
  \<open>pi * r\<^sup>2 * h = V\<close> (exactly, over the reals), and \<open>tank_SA\<close>, for a store whose water mass
  gives the volume \<open>V\<close>, returns \<open>2 * pi * r * h + 2 * pi * r\<^sup>2\<close> for these dimensions.
\<close>

theorem tank_geometry:
  assumes V: "0 < V" and ratio: "0 < ratio"
    and mass: "value_of iv ''hot_water_tank'' ''mass_of_water'' = Inr m"
    and vol: "num_real m / 1000 = V"
  shows "\<exists>h r. tank_dimension V ratio = Inr (h, r)
           \<and> r = (V / (pi * ratio)) powr (1 / 3)
           \<and> h = ratio * r
           \<and> pi * r\<^sup>2 * h = V
           \<and> tank_SA iv ratio = Inr (2 * pi * r * h + 2 * pi * r\<^sup>2)"
proof -
  let ?r = "(V / (pi * ratio)) powr (1 / 3)"
  let ?h = "ratio * ?r"
  have dim: "tank_dimension V ratio = Inr (?h, ?r)"
    using V ratio by (rule tank_dimension_pos)
  have base: "0 < V / (pi * ratio)"
    using V ratio by simp
  have "pi * ?r\<^sup>2 * ?h = pi * ratio * (?r\<^sup>2 * ?r)"
    by (simp only: mult.assoc mult.left_commute)
  also have "\<dots> = pi * ratio * (V / (pi * ratio))"
    by (simp only: cube_root_powr [OF base])
  also have "\<dots> = V"
    using ratio by simp
  finally have round: "pi * ?r\<^sup>2 * ?h = V" .
  have "vol_calc iv = Inr V"
    using mass vol by (simp add: vol_calc_def)
  then have "tank_SA iv ratio = Inr (2 * pi * ?r * ?h + 2 * pi * ?r\<^sup>2)"
    using dim by (simp add: tank_SA_def)
  with dim round show ?thesis by blast
qed


theorem tank_geometry_witness:
  "(0::real) < 2 * pi \<and> (0::real) < 2
   \<and> value_of tank_store ''hot_water_tank'' ''mass_of_water'' = Inr (PyFloat (2000 * pi))
   \<and> num_real (PyFloat (2000 * pi)) / 1000 = 2 * pi
   \<and> tank_dimension (2 * pi) 2 = Inr (2, 1)
   \<and> pi * 1\<^sup>2 * 2 = 2 * pi
   \<and> tank_SA tank_store 2 = Inr (2 * pi * 1 * 2 + 2 * pi * 1\<^sup>2)"
proof -
  have h1: "(0::real) < 2 * pi" by simp
  have h2: "(0::real) < 2" by simp
  have h3: "value_of tank_store ''hot_water_tank'' ''mass_of_water'' = Inr (PyFloat (2000 * pi))"
    by (simp add: tank_store_def value_of_def)
  have h4: "num_real (PyFloat (2000 * pi)) / 1000 = 2 * pi" by simp
  have one: "(2 * pi / (pi * 2)) powr (1 / 3) = 1" by simp
  from tank_geometry [OF h1 h2 h3 h4] obtain h r where
    d: "tank_dimension (2 * pi) 2 = Inr (h, r)" and r: "r = (2 * pi / (pi * 2)) powr (1 / 3)"
    and h: "h = 2 * r" and sa: "tank_SA tank_store 2 = Inr (2 * pi * r * h + 2 * pi * r\<^sup>2)"
    by blast
  from r one have r1: "r = 1" by simp
  with h have h2': "h = 2" by simp
  from d r1 h2' have d': "tank_dimension (2 * pi) 2 = Inr (2, 1)" by simp
  from sa r1 h2' have sa': "tank_SA tank_store 2 = Inr (2 * pi * 1 * 2 + 2 * pi * 1\<^sup>2)" by simp
  have six: "pi * 1\<^sup>2 * 2 = 2 * pi" by simp
  from h1 h2 h3 h4 d' six sa' show ?thesis by blast
qed

section \<open>Calibration\<close>

text \<open>
  How a call of \<open>get_cop_parameters\<close> ends. It never hands an exception to its caller.
  When reading the data fails, or when \<open>curve_fit\<close> raises, the exception is printed and
  the object is left as it was. When both succeed the fitted parameters and the mean of
  the standard deviations are stored and nothing is printed.
\<close>

lemma get_cop_parameters_never_raises:
  "get_cop_parameters self loaded curve_fit condenserTemp \<noteq> Inl e"
  by (cases "cop_fit self loaded curve_fit condenserTemp") (simp_all add: get_cop_parameters_def)

lemma get_cop_parameters_load_fails:
  "get_cop_parameters self (Inl e) curve_fit condenserTemp = Inr (self, [e])"
  by (simp add: get_cop_parameters_def cop_fit_def)

lemma get_cop_parameters_fit_fails:
  assumes "curve_fit
      (map (\<lambda>(outdoor_temp_C, COP_noisy). (condenserTemp - 273.15) - outdoor_temp_C) cop_df)
      (map (\<lambda>(outdoor_temp_C, COP_noisy). COP_noisy) cop_df) = Inl e"
  shows "get_cop_parameters self (Inr cop_df) curve_fit condenserTemp = Inr (self, [e])"
  using assms by (simp add: get_cop_parameters_def cop_fit_def Let_def)

lemma get_cop_parameters_fit_succeeds:
  assumes "curve_fit
      (map (\<lambda>(outdoor_temp_C, COP_noisy). (condenserTemp - 273.15) - outdoor_temp_C) cop_df)
      (map (\<lambda>(outdoor_temp_C, COP_noisy). COP_noisy) cop_df) = Inr ((a, b), (va, vb))"
  shows "get_cop_parameters self (Inr cop_df) curve_fit condenserTemp =
           Inr (self\<lparr>fit_a := Some a, fit_b := Some b,
                     std_error := Some ((sqrt va + sqrt vb) / 2)\<rparr>, [])"
  using assms by (simp add: get_cop_parameters_def cop_fit_def Let_def)

section \<open>The Euler integrator\<close>

lemma euler_loop_append:
  "euler_loop self dhw env (xs @ ys) s =
     bindE (euler_loop self dhw env xs s) (euler_loop self dhw env ys)"
proof (induction xs arbitrary: s)
  case Nil
  then show ?case by simp
next
  case (Cons i xs)
  show ?case
  proof (cases "euler_step self dhw env i s")
    case (Inl e)
    then show ?thesis by simp
  next
    case (Inr s1)
    then show ?thesis using Cons.IH [of s1] by simp
  qed
qed

lemma euler_body_Inr:
  assumes "euler_body self dhw env status t Ttank = Inr out"
  shows "\<exists>Qload Qtransfer Qloss cop capacity.
      CalculateQload (inputValues self) (interpolated_data self (t / 3600)) = Inr Qload
    \<and> (if update_pump_status (T_off env) (T_on env) status Ttank = On
        then CalculateQtransfer (inputValues self) Ttank = Inr Qtransfer
        else Qtransfer = 0)
    \<and> CalculateQloss (inputValues self) (Atank env) Ttank (interpolated_data self (t / 3600)) = Inr Qloss
    \<and> (if update_pump_status (T_off env) (T_on env) status Ttank = On
        then COP (65 + 273.15 - interpolated_data self (t / 3600)) (sim_fit_a self) (sim_fit_b self) = Inr cop
        else cop = 0)
    \<and> value_of (inputValues self) ''hot_water_tank'' ''total_thermal_capacity'' = Inr capacity
    \<and> num_real capacity \<noteq> 0
    \<and> new_status out = update_pump_status (T_off env) (T_on env) status Ttank
    \<and> out_Qload out = Qload \<and> out_Qtransfer out = Qtransfer \<and> out_Qloss out = Qloss
    \<and> out_COP out = cop
    \<and> out_Pin out = (if cop > 0 then Qtransfer / cop else 0)
    \<and> out_QDHW out = (if DHW self then dhw (t / 3600) * 4186 * (Ttank - T_inlet env) else 0)
    \<and> out_Ttank out = Ttank + step_size env *
         ((Qtransfer - Qload - Qloss - out_QDHW out) / num_real capacity)"
proof -
  let ?Tamb = "interpolated_data self (t / 3600)"
  let ?st = "update_pump_status (T_off env) (T_on env) status Ttank"
  let ?QDHW = "if DHW self then dhw (t / 3600) * 4186 * (Ttank - T_inlet env) else 0"
  from assms obtain Qload Qtransfer Qloss cop capacity where
    a: "CalculateQload (inputValues self) ?Tamb = Inr Qload"
    and b: "(if ?st = On then CalculateQtransfer (inputValues self) Ttank else Inr 0) = Inr Qtransfer"
    and c: "CalculateQloss (inputValues self) (Atank env) Ttank ?Tamb = Inr Qloss"
    and d: "(if ?st = On then COP (65 + 273.15 - ?Tamb) (sim_fit_a self) (sim_fit_b self)
             else Inr 0) = Inr cop"
    and e: "value_of (inputValues self) ''hot_water_tank'' ''total_thermal_capacity'' = Inr capacity"
    and f: "(if num_real capacity = 0 then Inl NonReal
             else Inr \<lparr>new_status = ?st, out_Qload = Qload, out_Qtransfer = Qtransfer,
                 out_Qloss = Qloss, out_COP = cop,
                 out_Pin = (if cop > 0 then Qtransfer / cop else 0), out_QDHW = ?QDHW,
                 out_Ttank = Ttank + step_size env *
                   ((Qtransfer - Qload - Qloss - ?QDHW) / num_real capacity)\<rparr>) = Inr out"
    unfolding euler_body_def Let_def bindE_eq_Inr by blast
  from f have cap: "num_real capacity \<noteq> 0"
    by (cases "num_real capacity = 0") simp_all
  with f have out: "out = \<lparr>new_status = ?st, out_Qload = Qload, out_Qtransfer = Qtransfer,
                 out_Qloss = Qloss, out_COP = cop,
                 out_Pin = (if cop > 0 then Qtransfer / cop else 0), out_QDHW = ?QDHW,
                 out_Ttank = Ttank + step_size env *
                   ((Qtransfer - Qload - Qloss - ?QDHW) / num_real capacity)\<rparr>"
    by simp
  from b have b': "if ?st = On then CalculateQtransfer (inputValues self) Ttank = Inr Qtransfer
                   else Qtransfer = 0"
    by (cases "?st = On") simp_all
  from d have d': "if ?st = On
        then COP (65 + 273.15 - ?Tamb) (sim_fit_a self) (sim_fit_b self) = Inr cop
        else cop = 0"
    by (cases "?st = On") simp_all
  show ?thesis
    apply (rule exI [of _ Qload], rule exI [of _ Qtransfer], rule exI [of _ Qloss],
        rule exI [of _ cop], rule exI [of _ capacity])
    using a b' c d' e cap by (simp add: out)
qed


lemma euler_step_Inr:
  assumes "euler_step self dhw env i s = Inr s'"
  shows "\<exists>out.
      euler_body self dhw env (pump_status s) (time_values env ! (i - 1))
        (Ttank_values s ! (i - 1)) = Inr out
    \<and> s' = \<lparr>pump_status = new_status out,
             Ttank_values = (Ttank_values s)[i := out_Ttank out],
             cop_values = (cop_values s)[i := out_COP out],
             heat_load_values = (heat_load_values s)[i := out_Qload out],
             heat_loss_values = (heat_loss_values s)[i := out_Qloss out],
             Pin_values = (Pin_values s)[i := out_Pin out],
             Qtransfer_values = (Qtransfer_values s)[i := out_Qtransfer out]\<rparr>"
  using assms unfolding euler_step_def Let_def bindE_eq_Inr by auto

lemma pump_after_snoc:
  "pump_after env st (xs @ [x]) = update_pump_status (T_off env) (T_on env) (pump_after env st xs) x"
  by (simp add: pump_after_def)

lemma take_snoc_nth:
  assumes "1 \<le> k" "k \<le> length xs"
  shows "take k xs = take (k - 1) xs @ [xs ! (k - 1)]"
proof -
  from assms have "k - 1 < length xs" by simp
  then have "take (Suc (k - 1)) xs = take (k - 1) xs @ [xs ! (k - 1)]"
    by (rule take_Suc_conv_app_nth)
  with assms show ?thesis by simp
qed

lemma recorded_at_frame:
  assumes rec: "recorded_at self dhw env init s1 i"
    and i: "i < k"
    and T: "Ttank_values s = (Ttank_values s1)[k := a]"
    and C: "cop_values s = (cop_values s1)[k := b]"
    and L: "heat_load_values s = (heat_load_values s1)[k := c]"
    and S: "heat_loss_values s = (heat_loss_values s1)[k := d]"
    and P: "Pin_values s = (Pin_values s1)[k := e]"
    and Q: "Qtransfer_values s = (Qtransfer_values s1)[k := f]"
  shows "recorded_at self dhw env init s i"
proof -
  from i have ne: "k \<noteq> i" "k \<noteq> i - 1" by simp_all
  from i have le: "i \<le> k" "i - 1 \<le> k" by simp_all
  show ?thesis
    using rec unfolding recorded_at_def T C L S P Q
    by (simp only: nth_list_update_neq [OF ne(1)] nth_list_update_neq [OF ne(2)]
        take_update_cancel [OF le(1)] take_update_cancel [OF le(2)])
qed

lemma run_inv_step:
  assumes inv: "run_inv self dhw env s0 N k s1"
    and k: "1 \<le> k" "k < N"
    and step: "euler_step self dhw env k s1 = Inr s"
  shows "run_inv self dhw env s0 N (Suc k) s"
proof -
  from step obtain out where
    body: "euler_body self dhw env (pump_status s1) (time_values env ! (k - 1))
             (Ttank_values s1 ! (k - 1)) = Inr out"
    and s: "s = \<lparr>pump_status = new_status out,
             Ttank_values = (Ttank_values s1)[k := out_Ttank out],
             cop_values = (cop_values s1)[k := out_COP out],
             heat_load_values = (heat_load_values s1)[k := out_Qload out],
             heat_loss_values = (heat_loss_values s1)[k := out_Qloss out],
             Pin_values = (Pin_values s1)[k := out_Pin out],
             Qtransfer_values = (Qtransfer_values s1)[k := out_Qtransfer out]\<rparr>"
    using euler_step_Inr by blast
  from inv have len: "length (Ttank_values s1) = N" "length (cop_values s1) = N"
      "length (heat_load_values s1) = N" "length (heat_loss_values s1) = N"
      "length (Pin_values s1) = N" "length (Qtransfer_values s1) = N"
    and zero: "Ttank_values s1 ! 0 = Ttank_values s0 ! 0" "cop_values s1 ! 0 = cop_values s0 ! 0"
      "heat_load_values s1 ! 0 = heat_load_values s0 ! 0"
      "heat_loss_values s1 ! 0 = heat_loss_values s0 ! 0"
      "Pin_values s1 ! 0 = Pin_values s0 ! 0"
      "Qtransfer_values s1 ! 0 = Qtransfer_values s0 ! 0"
    and st: "pump_status s1 = pump_after env (pump_status s0) (take (k - 1) (Ttank_values s1))"
    and rec: "\<forall>i. 1 \<le> i \<and> i < k \<longrightarrow> recorded_at self dhw env (pump_status s0) s1 i"
    unfolding run_inv_def by blast+
  have T: "Ttank_values s = (Ttank_values s1)[k := out_Ttank out]"
    and C: "cop_values s = (cop_values s1)[k := out_COP out]"
    and L: "heat_load_values s = (heat_load_values s1)[k := out_Qload out]"
    and S: "heat_loss_values s = (heat_loss_values s1)[k := out_Qloss out]"
    and P: "Pin_values s = (Pin_values s1)[k := out_Pin out]"
    and Q: "Qtransfer_values s = (Qtransfer_values s1)[k := out_Qtransfer out]"
    and St: "pump_status s = new_status out"
    by (simp_all add: s)
  have k0: "k \<noteq> 0" using k by simp
  have tk: "take k (Ttank_values s) = take k (Ttank_values s1)"
    and tk1: "take (k - 1) (Ttank_values s) = take (k - 1) (Ttank_values s1)"
    and prev: "Ttank_values s ! (k - 1) = Ttank_values s1 ! (k - 1)"
    using k by (simp_all add: T)
  have new: "new_status out =
      update_pump_status (T_off env) (T_on env) (pump_status s1) (Ttank_values s1 ! (k - 1))"
    using euler_body_Inr [OF body] by blast
  have "take k (Ttank_values s1) = take (k - 1) (Ttank_values s1) @ [Ttank_values s1 ! (k - 1)]"
    using k len by (intro take_snoc_nth) simp_all
  then have "pump_after env (pump_status s0) (take k (Ttank_values s1)) =
      update_pump_status (T_off env) (T_on env)
        (pump_after env (pump_status s0) (take (k - 1) (Ttank_values s1)))
        (Ttank_values s1 ! (k - 1))"
    by (simp only: pump_after_snoc)
  also have "\<dots> = new_status out"
    by (simp only: new st)
  finally have after: "pump_after env (pump_status s0) (take k (Ttank_values s1)) = new_status out" .
  have body': "euler_body self dhw env
      (pump_after env (pump_status s0) (take (k - 1) (Ttank_values s)))
      (time_values env ! (k - 1)) (Ttank_values s ! (k - 1)) = Inr out"
    using body by (simp only: tk1 prev st [symmetric])
  have ns: "new_status out = pump_after env (pump_status s0) (take k (Ttank_values s))"
    by (simp only: tk after)
  have vals: "Ttank_values s ! k = out_Ttank out" "cop_values s ! k = out_COP out"
      "heat_load_values s ! k = out_Qload out" "heat_loss_values s ! k = out_Qloss out"
      "Pin_values s ! k = out_Pin out" "Qtransfer_values s ! k = out_Qtransfer out"
    using k len by (simp_all add: T C L S P Q)
  have rec_k: "recorded_at self dhw env (pump_status s0) s k"
    unfolding recorded_at_def using body' ns vals by blast
  have rec_lt: "recorded_at self dhw env (pump_status s0) s i" if "1 \<le> i" "i < k" for i
    using rec that recorded_at_frame [OF _ that(2) T C L S P Q] by blast
  have rec': "\<forall>i. 1 \<le> i \<and> i < Suc k \<longrightarrow> recorded_at self dhw env (pump_status s0) s i"
  proof (intro allI impI)
    fix i assume "1 \<le> i \<and> i < Suc k"
    then consider "i = k" | "1 \<le> i" "i < k" by linarith
    then show "recorded_at self dhw env (pump_status s0) s i"
      using rec_k rec_lt by cases simp_all
  qed
  have st': "pump_status s = pump_after env (pump_status s0) (take (Suc k - 1) (Ttank_values s))"
    using after by (simp add: St tk)
  show ?thesis
    unfolding run_inv_def
    using len zero k0 st' rec' by (simp add: T C L S P Q)
qed

lemma euler_loop_inv:
  assumes "euler_loop self dhw env [1..<k] s0 = Inr s"
    and "k \<le> N"
    and "length (Ttank_values s0) = N" "length (cop_values s0) = N"
      "length (heat_load_values s0) = N" "length (heat_loss_values s0) = N"
      "length (Pin_values s0) = N" "length (Qtransfer_values s0) = N"
  shows "run_inv self dhw env s0 N k s"
  using assms(1,2)
proof (induction k arbitrary: s)
  case 0
  then have "s = s0" by simp
  with assms(3-) show ?case by (simp add: run_inv_def pump_after_def)
next
  case (Suc k)
  show ?case
  proof (cases "k = 0")
    case True
    with Suc.prems have "s = s0" by simp
    with assms(3-) True show ?thesis by (simp add: run_inv_def pump_after_def)
  next
    case False
    then have k: "1 \<le> k" by simp
    then have "[1..<Suc k] = [1..<k] @ [k]" by simp
    with Suc.prems(1) obtain s1 where
      loop: "euler_loop self dhw env [1..<k] s0 = Inr s1"
      and step: "euler_step self dhw env k s1 = Inr s"
      by (auto simp: euler_loop_append bindE_eq_Inr)
    from Suc.prems(2) have "k \<le> N" "k < N" by simp_all
    with Suc.IH [OF loop] have "run_inv self dhw env s0 N k s1" by simp
    from run_inv_step [OF this k \<open>k < N\<close> step] show ?thesis .
  qed
qed


lemma euler_setup_Inr:
  assumes "euler_setup self = Inr (N, env, s0)"
  shows "\<exists>Toff Ton total_time initial A.
      value_of (inputValues self) ''heat_pump'' ''off_temperature_threshold_K'' = Inr Toff
    \<and> value_of (inputValues self) ''heat_pump'' ''on_temperature_threshold_K'' = Inr Ton
    \<and> value_of (inputValues self) ''simulation_parameters'' ''total_time_seconds'' = Inr total_time
    \<and> value_of (inputValues self) ''simulation_parameters'' ''time_points'' = Inr (PyInt (int N))
    \<and> 2 \<le> N
    \<and> value_of (inputValues self) ''initial_conditions'' ''initial_tank_temperature_K'' = Inr initial
    \<and> tank_SA (inputValues self) (RHratio self) = Inr A
    \<and> env = \<lparr>T_off = num_real Toff, T_on = num_real Ton, T_inlet = 300,
              step_size = num_real total_time / (real N - 1),
              time_values = linspace 0 (num_real total_time) N,
              Atank = A\<rparr>
    \<and> s0 = \<lparr>pump_status = (if num_real initial < num_real Ton then On else Off),
             Ttank_values = (replicate N 0)[0 := num_real initial],
             cop_values = replicate N 0, heat_load_values = replicate N 0,
             heat_loss_values = replicate N 0,
             Pin_values = replicate N 0, Qtransfer_values = replicate N 0\<rparr>"
proof -
  from assms obtain Toff Ton total_time num_points where
    a: "value_of (inputValues self) ''heat_pump'' ''off_temperature_threshold_K'' = Inr Toff"
    and b: "value_of (inputValues self) ''heat_pump'' ''on_temperature_threshold_K'' = Inr Ton"
    and c: "value_of (inputValues self) ''simulation_parameters'' ''total_time_seconds'' = Inr total_time"
    and d: "value_of (inputValues self) ''simulation_parameters'' ''time_points'' = Inr num_points"
    and rest: "(case num_points of
       PyFloat x \<Rightarrow> Inl TypeError
     | PyInt n \<Rightarrow>
         if n < 0 then Inl ValueError
         else if n - 1 = 0 then Inl ZeroDivisionError
         else
           bindE (value_of (inputValues self) ''initial_conditions'' ''initial_tank_temperature_K'')
             (\<lambda>initial_tank_temp.
           bindE (tank_SA (inputValues self) (RHratio self)) (\<lambda>A.
           if n = 0 then Inl IndexError
           else
             let env = \<lparr>T_off = num_real Toff, T_on = num_real Ton, T_inlet = 300,
                        step_size = num_real total_time / real_of_int (n - 1),
                        time_values = linspace 0 (num_real total_time) (nat n),
                        Atank = A\<rparr>;
                 zeros = replicate (nat n) 0;
                 s0 = \<lparr>pump_status =
                         (if num_real initial_tank_temp < num_real Ton then On else Off),
                       Ttank_values = zeros[0 := num_real initial_tank_temp],
                       cop_values = zeros, heat_load_values = zeros, heat_loss_values = zeros,
                       Pin_values = zeros, Qtransfer_values = zeros\<rparr>
             in Inr (nat n, env, s0)))) = Inr (N, env, s0)"
    unfolding euler_setup_def bindE_eq_Inr by blast
  from rest obtain n where n: "num_points = PyInt n"
    by (cases num_points) simp_all
  from rest n have nn: "\<not> n < 0"
    by (cases "n < 0") simp_all
  from rest n nn have n1: "n - 1 \<noteq> 0"
    by (cases "n - 1 = 0") simp_all
  from rest n nn n1 have n0: "n \<noteq> 0"
    by (cases "n = 0") (auto simp: bindE_eq_Inr)
  from nn n1 n0 have n2: "2 \<le> n" by linarith
  from rest n nn n1 n0 obtain initial A where
    e: "value_of (inputValues self) ''initial_conditions'' ''initial_tank_temperature_K'' = Inr initial"
    and f: "tank_SA (inputValues self) (RHratio self) = Inr A"
    and g: "N = nat n"
    and h: "env = \<lparr>T_off = num_real Toff, T_on = num_real Ton, T_inlet = 300,
                        step_size = num_real total_time / real_of_int (n - 1),
                        time_values = linspace 0 (num_real total_time) (nat n),
                        Atank = A\<rparr>"
    and i: "s0 = \<lparr>pump_status = (if num_real initial < num_real Ton then On else Off),
                       Ttank_values = (replicate (nat n) 0)[0 := num_real initial],
                       cop_values = replicate (nat n) 0, heat_load_values = replicate (nat n) 0,
                       heat_loss_values = replicate (nat n) 0,
                       Pin_values = replicate (nat n) 0, Qtransfer_values = replicate (nat n) 0\<rparr>"
    by (auto simp: bindE_eq_Inr Let_def)
  from n2 g have N: "2 \<le> N" "n = int N" by simp_all
  from N have "real_of_int (n - 1) = real N - 1" by simp
  with a b c d e f h i n N show ?thesis by auto
qed

lemma euler_run:
  assumes "euler self dhw = Inr res"
  shows "\<exists>N env s0 s.
      euler_setup self = Inr (N, env, s0)
    \<and> res = euler_return self N env s
    \<and> run_inv self dhw env s0 N N s"
proof -
  from assms obtain x where
    su0: "euler_setup self = Inr x"
    and r: "(case x of (num_points, env, s0) \<Rightarrow>
              bindE (euler_loop self dhw env [1..<num_points] s0) (\<lambda>s.
                Inr (euler_return self num_points env s))) = Inr res"
    unfolding euler_def bindE_eq_Inr by blast
  obtain N env s0 where x: "x = (N, env, s0)"
    by (cases x) auto
  from su0 x have su: "euler_setup self = Inr (N, env, s0)" by simp
  from r x obtain s where
    loop: "euler_loop self dhw env [1..<N] s0 = Inr s"
    and res: "res = euler_return self N env s"
    by (auto simp: bindE_eq_Inr)
  from euler_setup_Inr [OF su] have
    "length (Ttank_values s0) = N" "length (cop_values s0) = N"
    "length (heat_load_values s0) = N" "length (heat_loss_values s0) = N"
    "length (Pin_values s0) = N" "length (Qtransfer_values s0) = N"
    by auto
  from euler_loop_inv [OF loop order_refl this] su res show ?thesis by blast
qed

subsection \<open>A concrete run\<close>

lemma demo_lookups:
  "value_of demo_store ''heat_pump'' ''off_temperature_threshold_K'' = Inr (PyInt 325)"
  "value_of demo_store ''heat_pump'' ''on_temperature_threshold_K'' = Inr (PyInt 315)"
  "value_of demo_store ''heat_pump'' ''overall_heat_transfer_coefficient'' = Inr (PyInt 10)"
  "value_of demo_store ''heat_pump'' ''heat_transfer_area'' = Inr (PyInt 1)"
  "value_of demo_store ''heat_pump'' ''fixed_condenser_temperature_K'' = Inr (PyInt 340)"
  "value_of demo_store ''simulation_parameters'' ''total_time_seconds'' = Inr (PyInt 20)"
  "value_of demo_store ''simulation_parameters'' ''time_points'' = Inr (PyInt 3)"
  "value_of demo_store ''initial_conditions'' ''initial_tank_temperature_K'' = Inr (PyInt 310)"
  "value_of demo_store ''building_properties'' ''wall_area'' = Inr (PyInt 10)"
  "value_of demo_store ''building_properties'' ''wall_U_value'' = Inr (PyInt 1)"
  "value_of demo_store ''building_properties'' ''roof_area'' = Inr (PyInt 0)"
  "value_of demo_store ''building_properties'' ''roof_U_value'' = Inr (PyInt 0)"
  "value_of demo_store ''building_properties'' ''indoor_setpoint_temperature_K'' = Inr (PyInt 290)"
  "value_of demo_store ''hot_water_tank'' ''heat_loss_coefficient'' = Inr (PyFloat (1 / (6 * pi)))"
  "value_of demo_store ''hot_water_tank'' ''mass_of_water'' = Inr (PyFloat (2000 * pi))"
  "value_of demo_store ''hot_water_tank'' ''total_thermal_capacity'' = Inr (PyInt 100)"
  by (simp_all add: demo_store_def value_of_def)

lemma demo_tank_SA: "tank_SA demo_store 2 = Inr (6 * pi)"
proof -
  have "tank_dimension (2 * pi) 2 = Inr (2 * (2 * pi / (pi * 2)) powr (1 / 3), (2 * pi / (pi * 2)) powr (1 / 3))"
    by (rule tank_dimension_pos) simp_all
  moreover have "(2 * pi / (pi * 2)) powr (1 / 3) = 1" by simp
  ultimately have "tank_dimension (2 * pi) 2 = Inr (2, 1)" by simp
  then show ?thesis
    by (simp add: tank_SA_def vol_calc_def demo_lookups)
qed

lemma demo_Qload: "CalculateQload demo_store Tamb = Inr (- (10 * (Tamb - 290)))"
  by (simp add: CalculateQload_def demo_lookups)

lemma demo_Qtransfer: "CalculateQtransfer demo_store T = Inr (10 * (340 - T))"
  by (simp add: CalculateQtransfer_def demo_lookups)

lemma demo_Qloss: "CalculateQloss demo_store (6 * pi) T Tamb = Inr (T - Tamb)"
  by (simp add: CalculateQloss_def demo_lookups)

lemma demo_setup: "euler_setup (demo_sim b) = Inr (3, demo_env, demo_s0)"
  by (simp add: euler_setup_def demo_sim_def demo_lookups demo_tank_SA Let_def linspace_def
      demo_env_def demo_s0_def numeral_3_eq_3)

lemma demo_env_sel:
  "T_off demo_env = 325" "T_on demo_env = 315" "T_inlet demo_env = 300"
  "step_size demo_env = 10" "time_values demo_env = [0, 10, 20]" "Atank demo_env = 6 * pi"
  by (simp_all add: demo_env_def)

lemma demo_sim_sel:
  "inputValues (demo_sim b) = demo_store" "interpolated_data (demo_sim b) = (\<lambda>t. 280)"
  "sim_fit_a (demo_sim b) = Some 3" "sim_fit_b (demo_sim b) = Some 58.15"
  "RHratio (demo_sim b) = 2" "DHW (demo_sim b) = b"
  by (simp_all add: demo_sim_def)

lemma demo_body_1:
  "euler_body (demo_sim False) dhw demo_env On 0 310 =
     Inr \<lparr>new_status = On, out_Qload = 100, out_Qtransfer = 300, out_Qloss = 30,
          out_COP = 4, out_Pin = 75, out_QDHW = 0, out_Ttank = 327\<rparr>"
  by (simp add: euler_body_def demo_sim_sel demo_env_sel update_pump_status_def demo_Qload
      demo_Qtransfer demo_Qloss COP_def demo_lookups Let_def)

lemma demo_body_2:
  "euler_body (demo_sim False) dhw demo_env On 10 327 =
     Inr \<lparr>new_status = Off, out_Qload = 100, out_Qtransfer = 0, out_Qloss = 47,
          out_COP = 0, out_Pin = 0, out_QDHW = 0, out_Ttank = 312.3\<rparr>"
  by (simp add: euler_body_def demo_sim_sel demo_env_sel update_pump_status_def demo_Qload
      demo_Qtransfer demo_Qloss COP_def demo_lookups Let_def)

lemma demo_step_1: "euler_step (demo_sim False) dhw demo_env 1 demo_s0 = Inr demo_s1"
proof -
  have "time_values demo_env ! (1 - 1) = 0" "Ttank_values demo_s0 ! (1 - 1) = 310"
    "pump_status demo_s0 = On"
    by (simp_all add: demo_env_sel demo_s0_def)
  then show ?thesis
    unfolding euler_step_def Let_def
    by (simp only: demo_body_1 bindE_Inr) (simp add: demo_s0_def demo_s1_def)
qed

lemma demo_step_2: "euler_step (demo_sim False) dhw demo_env 2 demo_s1 = Inr demo_s2"
proof -
  have "time_values demo_env ! (2 - 1) = 10" "Ttank_values demo_s1 ! (2 - 1) = 327"
    "pump_status demo_s1 = On"
    by (simp_all add: demo_env_sel demo_s1_def)
  then show ?thesis
    unfolding euler_step_def Let_def
    by (simp only: demo_body_2 bindE_Inr) (simp add: demo_s1_def demo_s2_def)
qed

lemma upt_1_3: "[1..<3] = [1, 2::nat]"
  by (simp add: numeral_3_eq_3 upt_rec)

lemma demo_loop: "euler_loop (demo_sim False) dhw demo_env [1..<3] demo_s0 = Inr demo_s2"
  by (simp only: upt_1_3 euler_loop.simps demo_step_1 demo_step_2 bindE_Inr)

lemma demo_return: "euler_return (demo_sim False) 3 demo_env demo_s2 = demo_result"
  by (simp add: euler_return_def demo_env_sel demo_sim_sel demo_s2_def demo_result_def)

lemma demo_euler: "euler (demo_sim False) dhw = Inr demo_result"
  by (simp only: euler_def demo_setup bindE_Inr prod.case demo_loop demo_return)

subsection \<open>The update rule\<close>

lemma euler_return_sel:
  "res_time (euler_return self N env s) = map (\<lambda>t. t / 3600) (time_values env)"
  "res_Ttank (euler_return self N env s) = Ttank_values s"
  "res_heat_load (euler_return self N env s) = heat_load_values s"
  "res_heat_loss (euler_return self N env s) = heat_loss_values s"
  "res_cop (euler_return self N env s) = cop_values s"
  "res_Pin (euler_return self N env s) = Pin_values s"
  "res_Qtransfer (euler_return self N env s) = Qtransfer_values s"
  "res_QDHW (euler_return self N env s) =
     (if DHW self then Series (replicate N 0) else Text ''DHW Simulation Off'')"
  by (simp_all add: euler_return_def)

lemma run_inv_recorded:
  assumes "run_inv self dhw env s0 N N s" "1 \<le> i" "i < N"
  shows "recorded_at self dhw env (pump_status s0) s i"
  using assms unfolding run_inv_def by blast

lemma run_inv_length:
  assumes "run_inv self dhw env s0 N k s"
  shows "length (Ttank_values s) = N"
  using assms unfolding run_inv_def by blast

text \<open>
  Claim C3. In every run that returns, for every step \<open>i\<close> from \<open>1\<close> to \<open>numPoints - 1\<close>:
  \<open>T_tank[i] = T_tank[i-1] + stepSize * (Qtransfer - Qload - Qloss - QDHW) / capacity\<close>,
  where \<open>stepSize = totalDuration / (numPoints - 1)\<close> is fixed before the loop, and heat
  load, heat loss, heat transfer (zero unless the pump is on) and DHW draw are evaluated
  at the previous tank temperature and at the previous time \<open>(i - 1) * stepSize\<close>.
\<close>

theorem euler_update_rule:
  assumes run: "euler self dhw = Inr res"
    and i: "1 \<le> i" "i < length (res_Ttank res)"
  shows "\<exists>N env s0 total_time capacity Qload Qtransfer Qloss.
      euler_setup self = Inr (N, env, s0)
    \<and> length (res_Ttank res) = N
    \<and> value_of (inputValues self) ''simulation_parameters'' ''total_time_seconds'' = Inr total_time
    \<and> step_size env = num_real total_time / (real N - 1)
    \<and> time_values env ! (i - 1) = real (i - 1) * step_size env
    \<and> res_time res ! (i - 1) = time_values env ! (i - 1) / 3600
    \<and> value_of (inputValues self) ''hot_water_tank'' ''total_thermal_capacity'' = Inr capacity
    \<and> num_real capacity \<noteq> 0
    \<and> CalculateQload (inputValues self)
          (interpolated_data self (time_values env ! (i - 1) / 3600)) = Inr Qload
    \<and> CalculateQloss (inputValues self) (Atank env) (res_Ttank res ! (i - 1))
          (interpolated_data self (time_values env ! (i - 1) / 3600)) = Inr Qloss
    \<and> (if pump_after env (pump_status s0) (take i (res_Ttank res)) = On
        then CalculateQtransfer (inputValues self) (res_Ttank res ! (i - 1)) = Inr Qtransfer
        else Qtransfer = 0)
    \<and> res_heat_load res ! i = Qload
    \<and> res_heat_loss res ! i = Qloss
    \<and> res_Qtransfer res ! i = Qtransfer
    \<and> res_Ttank res ! i = res_Ttank res ! (i - 1) + step_size env *
         ((Qtransfer - Qload - Qloss -
            (if DHW self
             then dhw (time_values env ! (i - 1) / 3600) * 4186 * (res_Ttank res ! (i - 1) - 300)
             else 0)) / num_real capacity)"
proof -
  from euler_run [OF run] obtain N env s0 s where
    su: "euler_setup self = Inr (N, env, s0)"
    and res: "res = euler_return self N env s"
    and inv: "run_inv self dhw env s0 N N s"
    by blast
  from euler_setup_Inr [OF su] obtain Toff Ton total_time initial A where
    tt: "value_of (inputValues self) ''simulation_parameters'' ''total_time_seconds'' = Inr total_time"
    and N: "2 \<le> N"
    and env: "env = \<lparr>T_off = num_real Toff, T_on = num_real Ton, T_inlet = 300,
              step_size = num_real total_time / (real N - 1),
              time_values = linspace 0 (num_real total_time) N,
              Atank = A\<rparr>"
    by blast
  have len: "length (res_Ttank res) = N"
    using run_inv_length [OF inv] by (simp add: res euler_return_sel)
  with i have iN: "i < N" by simp
  from env have ss: "step_size env = num_real total_time / (real N - 1)"
    and inlet: "T_inlet env = 300"
    and tv: "time_values env = linspace 0 (num_real total_time) N"
    by simp_all
  have rN: "real (N - 1) = real N - 1" using N by (simp add: of_nat_diff)
  have tprev: "time_values env ! (i - 1) = real (i - 1) * step_size env"
    using N iN by (simp add: tv ss linspace_nth rN)
  have lt: "length (time_values env) = N" by (simp add: tv length_linspace)
  have rt: "res_time res ! (i - 1) = time_values env ! (i - 1) / 3600"
    using iN lt by (simp add: res euler_return_sel)
  from run_inv_recorded [OF inv i(1) iN] obtain out where
    body: "euler_body self dhw env (pump_after env (pump_status s0) (take (i - 1) (Ttank_values s)))
          (time_values env ! (i - 1)) (Ttank_values s ! (i - 1)) = Inr out"
    and ns: "new_status out = pump_after env (pump_status s0) (take i (Ttank_values s))"
    and vT: "Ttank_values s ! i = out_Ttank out"
    and vL: "heat_load_values s ! i = out_Qload out"
    and vS: "heat_loss_values s ! i = out_Qloss out"
    and vQ: "Qtransfer_values s ! i = out_Qtransfer out"
    unfolding recorded_at_def by blast
  let ?st = "pump_after env (pump_status s0) (take (i - 1) (Ttank_values s))"
  let ?t = "time_values env ! (i - 1)"
  let ?T = "Ttank_values s ! (i - 1)"
  from euler_body_Inr [OF body] obtain Qload Qtransfer Qloss cop capacity where
    a: "CalculateQload (inputValues self) (interpolated_data self (?t / 3600)) = Inr Qload"
    and b: "if update_pump_status (T_off env) (T_on env) ?st ?T = On
        then CalculateQtransfer (inputValues self) ?T = Inr Qtransfer
        else Qtransfer = 0"
    and c: "CalculateQloss (inputValues self) (Atank env) ?T (interpolated_data self (?t / 3600)) = Inr Qloss"
    and e: "value_of (inputValues self) ''hot_water_tank'' ''total_thermal_capacity'' = Inr capacity"
    and cap: "num_real capacity \<noteq> 0"
    and st': "new_status out = update_pump_status (T_off env) (T_on env) ?st ?T"
    and o1: "out_Qload out = Qload" "out_Qtransfer out = Qtransfer" "out_Qloss out = Qloss"
    and oD: "out_QDHW out = (if DHW self then dhw (?t / 3600) * 4186 * (?T - T_inlet env) else 0)"
    and oT: "out_Ttank out = ?T + step_size env *
         ((Qtransfer - Qload - Qloss - out_QDHW out) / num_real capacity)"
    by blast
  from b st' ns have b': "if pump_after env (pump_status s0) (take i (Ttank_values s)) = On
        then CalculateQtransfer (inputValues self) ?T = Inr Qtransfer
        else Qtransfer = 0"
    by simp
  have final: "Ttank_values s ! i = ?T + step_size env *
         ((Qtransfer - Qload - Qloss -
            (if DHW self then dhw (?t / 3600) * 4186 * (?T - 300) else 0)) / num_real capacity)"
    using vT oT oD inlet by simp
  have rs: "res_Ttank res = Ttank_values s" "res_heat_load res = heat_load_values s"
    "res_heat_loss res = heat_loss_values s" "res_Qtransfer res = Qtransfer_values s"
    by (simp_all add: res euler_return_sel)
  show ?thesis
    apply (rule exI [of _ N], rule exI [of _ env], rule exI [of _ s0],
        rule exI [of _ total_time], rule exI [of _ capacity], rule exI [of _ Qload],
        rule exI [of _ Qtransfer], rule exI [of _ Qloss])
    unfolding rs
    using su len [unfolded rs] tt ss tprev rt e cap a c b' vL vS vQ o1 final
    by (intro conjI) simp_all
qed

lemma demo_result_sel:
  "res_Ttank demo_result = [310, 327, 312.3]" "res_heat_load demo_result = [0, 100, 100]"
  "res_heat_loss demo_result = [0, 30, 47]" "res_cop demo_result = [0, 4, 0]"
  "res_Pin demo_result = [0, 75, 0]" "res_Qtransfer demo_result = [0, 300, 0]"
  "res_time demo_result = [0, 10 / 3600, 20 / 3600]"
  "res_QDHW demo_result = Text ''DHW Simulation Off''"
  by (simp_all add: demo_result_def)

theorem euler_update_rule_witness:
  "euler (demo_sim False) (\<lambda>t. 0) = Inr demo_result
   \<and> (1::nat) \<le> 1 \<and> 1 < length (res_Ttank demo_result)
   \<and> euler_setup (demo_sim False) = Inr (3, demo_env, demo_s0)
   \<and> step_size demo_env = 20 / (3 - 1)
   \<and> res_Ttank demo_result ! 1 =
        res_Ttank demo_result ! 0 + step_size demo_env * ((300 - 100 - 30 - 0) / 100)"
proof -
  have h1: "euler (demo_sim False) (\<lambda>t. 0) = Inr demo_result" by (rule demo_euler)
  have h2: "(1::nat) \<le> 1" by simp
  have h3: "1 < length (res_Ttank demo_result)" by (simp add: demo_result_sel)
  from euler_update_rule [OF h1 h2 h3] obtain N env s0 capacity Qload Qtransfer Qloss where
    su: "euler_setup (demo_sim False) = Inr (N, env, s0)"
    and e: "value_of (inputValues (demo_sim False)) ''hot_water_tank'' ''total_thermal_capacity''
              = Inr capacity"
    and a: "CalculateQload (inputValues (demo_sim False))
          (interpolated_data (demo_sim False) (time_values env ! (1 - 1) / 3600)) = Inr Qload"
    and c: "CalculateQloss (inputValues (demo_sim False)) (Atank env) (res_Ttank demo_result ! (1 - 1))
          (interpolated_data (demo_sim False) (time_values env ! (1 - 1) / 3600)) = Inr Qloss"
    and b: "if pump_after env (pump_status s0) (take 1 (res_Ttank demo_result)) = On
        then CalculateQtransfer (inputValues (demo_sim False)) (res_Ttank demo_result ! (1 - 1))
               = Inr Qtransfer
        else Qtransfer = 0"
    and f: "res_Ttank demo_result ! 1 = res_Ttank demo_result ! (1 - 1) + step_size env *
         ((Qtransfer - Qload - Qloss -
            (if DHW (demo_sim False)
             then 0 * 4186 * (res_Ttank demo_result ! (1 - 1) - 300)
             else 0)) / num_real capacity)"
    by blast
  from su have env: "env = demo_env" and s0: "s0 = demo_s0" and N: "N = 3"
    by (simp_all add: demo_setup)
  from e have "capacity = PyInt 100"
    by (simp add: demo_sim_sel demo_lookups)
  then have cap: "num_real capacity = 100" by simp
  from a have ql: "Qload = 100"
    by (simp add: demo_sim_sel demo_Qload)
  from c have qs: "Qloss = 30"
    by (simp add: demo_sim_sel env demo_env_sel demo_Qloss demo_result_sel)
  have "pump_after demo_env (pump_status demo_s0) (take 1 (res_Ttank demo_result)) = On"
    by (simp add: pump_after_def update_pump_status_def demo_env_sel demo_s0_def demo_result_sel)
  with b have qt: "Qtransfer = 300"
    by (simp add: env s0 demo_sim_sel demo_Qtransfer demo_result_sel)
  have ss: "step_size demo_env = 20 / (3 - 1)" by (simp add: demo_env_sel)
  from f have "res_Ttank demo_result ! 1 =
        res_Ttank demo_result ! 0 + step_size demo_env * ((300 - 100 - 30 - 0) / 100)"
    by (simp add: env cap ql qs qt demo_sim_sel)
  with h1 h2 h3 ss demo_setup show ?thesis by blast
qed

subsection \<open>Power input, index zero, hysteresis and the DHW channel\<close>

lemma value_of_not_zero_division: "value_of iv c n \<noteq> Inl ZeroDivisionError"
  by (simp add: value_of_def split: option.splits)

lemma bindE_not_error:
  assumes "m \<noteq> Inl e" "\<And>x. m = Inr x \<Longrightarrow> f x \<noteq> Inl e"
  shows "bindE m f \<noteq> Inl e"
  using assms by (cases m) auto

lemma Qload_not_zero_division: "CalculateQload iv Tamb \<noteq> Inl ZeroDivisionError"
  unfolding CalculateQload_def Let_def
  by (intro bindE_not_error value_of_not_zero_division) simp

lemma Qtransfer_not_zero_division: "CalculateQtransfer iv T \<noteq> Inl ZeroDivisionError"
  unfolding CalculateQtransfer_def
  by (intro bindE_not_error value_of_not_zero_division) simp

lemma Qloss_not_zero_division: "CalculateQloss iv A T Tamb \<noteq> Inl ZeroDivisionError"
  unfolding CalculateQloss_def
  by (intro bindE_not_error value_of_not_zero_division) simp

lemma COP_not_zero_division: "COP deltaT a b \<noteq> Inl ZeroDivisionError"
  by (simp add: COP_def split: option.splits)

lemma euler_body_not_zero_division:
  "euler_body self dhw env status t Ttank \<noteq> Inl ZeroDivisionError"
  unfolding euler_body_def Let_def
  by (intro bindE_not_error Qload_not_zero_division Qloss_not_zero_division
      value_of_not_zero_division)
     (simp_all add: Qtransfer_not_zero_division COP_not_zero_division)

text \<open>
  Claim C7. In every run that returns, at every step \<open>i\<close> whose pump status is off the
  recorded COP and heat transfer are \<open>0\<close>; at every step the recorded power input is
  \<open>Qtransfer / COP\<close> when \<open>COP > 0\<close> and \<open>0\<close> otherwise; and the loop body never raises
  ZeroDivisionError, whatever the COP is.
\<close>

theorem pump_off_and_power_input:
  assumes run: "euler self dhw = Inr res"
    and i: "1 \<le> i" "i < length (res_Ttank res)"
  shows "\<exists>N env s0.
      euler_setup self = Inr (N, env, s0)
    \<and> (pump_after env (pump_status s0) (take i (res_Ttank res)) = Off \<longrightarrow>
          res_cop res ! i = 0 \<and> res_Qtransfer res ! i = 0)
    \<and> res_Pin res ! i =
          (if res_cop res ! i > 0 then res_Qtransfer res ! i / res_cop res ! i else 0)
    \<and> (\<forall>status t T. euler_body self dhw env status t T \<noteq> Inl ZeroDivisionError)"
proof -
  from euler_run [OF run] obtain N env s0 s where
    su: "euler_setup self = Inr (N, env, s0)"
    and res: "res = euler_return self N env s"
    and inv: "run_inv self dhw env s0 N N s"
    by blast
  have rs: "res_Ttank res = Ttank_values s" "res_cop res = cop_values s"
    "res_Pin res = Pin_values s" "res_Qtransfer res = Qtransfer_values s"
    by (simp_all add: res euler_return_sel)
  have "length (res_Ttank res) = N"
    using run_inv_length [OF inv] by (simp add: rs)
  with i have iN: "i < N" by simp
  from run_inv_recorded [OF inv i(1) iN] obtain out where
    body: "euler_body self dhw env (pump_after env (pump_status s0) (take (i - 1) (Ttank_values s)))
          (time_values env ! (i - 1)) (Ttank_values s ! (i - 1)) = Inr out"
    and ns: "new_status out = pump_after env (pump_status s0) (take i (Ttank_values s))"
    and vC: "cop_values s ! i = out_COP out"
    and vP: "Pin_values s ! i = out_Pin out"
    and vQ: "Qtransfer_values s ! i = out_Qtransfer out"
    unfolding recorded_at_def by blast
  let ?st = "pump_after env (pump_status s0) (take (i - 1) (Ttank_values s))"
  let ?T = "Ttank_values s ! (i - 1)"
  from euler_body_Inr [OF body] obtain Qtransfer cop where
    b: "if update_pump_status (T_off env) (T_on env) ?st ?T = On
        then CalculateQtransfer (inputValues self) ?T = Inr Qtransfer
        else Qtransfer = 0"
    and d: "if update_pump_status (T_off env) (T_on env) ?st ?T = On
        then COP (65 + 273.15 - interpolated_data self (time_values env ! (i - 1) / 3600))
               (sim_fit_a self) (sim_fit_b self) = Inr cop
        else cop = 0"
    and st': "new_status out = update_pump_status (T_off env) (T_on env) ?st ?T"
    and oq: "out_Qtransfer out = Qtransfer"
    and oc: "out_COP out = cop"
    and op: "out_Pin out = (if cop > 0 then Qtransfer / cop else 0)"
    by blast
  have off: "cop_values s ! i = 0 \<and> Qtransfer_values s ! i = 0"
    if "pump_after env (pump_status s0) (take i (Ttank_values s)) = Off"
  proof -
    from that ns st' have "update_pump_status (T_off env) (T_on env) ?st ?T \<noteq> On" by simp
    with b d have "Qtransfer = 0" "cop = 0" by simp_all
    with vC vQ oq oc show ?thesis by simp
  qed
  have pin: "Pin_values s ! i =
      (if cop_values s ! i > 0 then Qtransfer_values s ! i / cop_values s ! i else 0)"
    using vP vC vQ oq oc op by simp
  from su off pin euler_body_not_zero_division show ?thesis
    unfolding rs by blast
qed



lemma pump_after_dead_band:
  assumes "\<forall>T \<in> set temps. T_on env < T \<and> T < T_off env"
  shows "pump_after env m temps = m"
  using assms
proof (induction temps arbitrary: m)
  case Nil
  then show ?case by (simp add: pump_after_def)
next
  case (Cons T temps)
  then have "update_pump_status (T_off env) (T_on env) m T = m"
    by (simp add: update_pump_status_def)
  moreover have "pump_after env m (T # temps) =
      pump_after env (update_pump_status (T_off env) (T_on env) m T) temps"
    by (simp add: pump_after_def)
  ultimately show ?case using Cons by simp
qed

text \<open>
  Claim C4. A pass of the loop sets the pump status from the previous tank temperature
  \<open>T\<close>: off when \<open>T \<ge> T_off\<close>, on when \<open>T \<le> T_on\<close>, unchanged otherwise. Hence over any
  sequence of temperatures strictly between \<open>T_on\<close> and \<open>T_off\<close> a pump that is off stays
  off and a pump that is on stays on.
\<close>

theorem pump_hysteresis:
  "(euler_step self dhw env i s = Inr s' \<longrightarrow>
      pump_status s' =
        (if Ttank_values s ! (i - 1) \<ge> T_off env then Off
         else if Ttank_values s ! (i - 1) \<le> T_on env then On
         else pump_status s))
   \<and> ((\<forall>T \<in> set temps. T_on env < T \<and> T < T_off env) \<longrightarrow>
        pump_after env Off temps = Off \<and> pump_after env On temps = On)"
proof (intro conjI impI)
  assume step: "euler_step self dhw env i s = Inr s'"
  from euler_step_Inr [OF step] obtain out where
    body: "euler_body self dhw env (pump_status s) (time_values env ! (i - 1))
             (Ttank_values s ! (i - 1)) = Inr out"
    and st: "pump_status s' = new_status out"
    by auto
  from euler_body_Inr [OF body] have
    "new_status out =
       update_pump_status (T_off env) (T_on env) (pump_status s) (Ttank_values s ! (i - 1))"
    by blast
  with st show "pump_status s' =
        (if Ttank_values s ! (i - 1) \<ge> T_off env then Off
         else if Ttank_values s ! (i - 1) \<le> T_on env then On
         else pump_status s)"
    by (simp add: update_pump_status_def)
next
  assume "\<forall>T \<in> set temps. T_on env < T \<and> T < T_off env"
  then show "pump_after env Off temps = Off" by (rule pump_after_dead_band)
next
  assume "\<forall>T \<in> set temps. T_on env < T \<and> T < T_off env"
  then show "pump_after env On temps = On" by (rule pump_after_dead_band)
qed

theorem pump_hysteresis_witness:
  "euler_step (demo_sim False) (\<lambda>t. 0) demo_env 2 demo_s1 = Inr demo_s2
   \<and> Ttank_values demo_s1 ! (2 - 1) = 327 \<and> T_off demo_env = 325
   \<and> pump_status demo_s2 = Off
   \<and> pump_after demo_env Off [316, 320, 324] = Off
   \<and> pump_after demo_env On [316, 320, 324] = On"
proof -
  have h1: "euler_step (demo_sim False) (\<lambda>t. 0) demo_env 2 demo_s1 = Inr demo_s2"
    by (rule demo_step_2)
  have h2: "\<forall>T \<in> set [316, 320, 324 :: real]. T_on demo_env < T \<and> T < T_off demo_env"
    by (simp add: demo_env_sel)
  have v: "Ttank_values demo_s1 ! (2 - 1) = 327" "T_off demo_env = 325"
    by (simp_all add: demo_s1_def demo_env_sel)
  note w = pump_hysteresis [of "demo_sim False" "\<lambda>t. 0" demo_env 2 demo_s1 demo_s2
      "[316, 320, 324]"]
  from w h1 have "pump_status demo_s2 =
        (if Ttank_values demo_s1 ! (2 - 1) \<ge> T_off demo_env then Off
         else if Ttank_values demo_s1 ! (2 - 1) \<le> T_on demo_env then On
         else pump_status demo_s1)"
    by blast
  with v have a: "pump_status demo_s2 = Off" by simp
  from w h2 have b: "pump_after demo_env Off [316, 320, 324] = Off
      \<and> pump_after demo_env On [316, 320, 324] = On"
    by blast
  from h1 v a b show ?thesis by blast
qed

lemma dhw_body_1:
  "euler_body (demo_sim True) dhw_flow demo_env On 0 310 =
     Inr \<lparr>new_status = On, out_Qload = 100, out_Qtransfer = 300, out_Qloss = 30,
          out_COP = 4, out_Pin = 75, out_QDHW = 10, out_Ttank = 326\<rparr>"
  by (simp add: euler_body_def demo_sim_sel demo_env_sel update_pump_status_def demo_Qload
      demo_Qtransfer demo_Qloss COP_def demo_lookups Let_def dhw_flow_def)

lemma dhw_body_2:
  "euler_body (demo_sim True) dhw_flow demo_env On 10 326 =
     Inr \<lparr>new_status = Off, out_Qload = 100, out_Qtransfer = 0, out_Qloss = 46,
          out_COP = 0, out_Pin = 0, out_QDHW = 26, out_Ttank = 308.8\<rparr>"
  by (simp add: euler_body_def demo_sim_sel demo_env_sel update_pump_status_def demo_Qload
      demo_Qtransfer demo_Qloss COP_def demo_lookups Let_def dhw_flow_def)

lemma dhw_step_1: "euler_step (demo_sim True) dhw_flow demo_env 1 demo_s0 = Inr dhw_s1"
proof -
  have "time_values demo_env ! (1 - 1) = 0" "Ttank_values demo_s0 ! (1 - 1) = 310"
    "pump_status demo_s0 = On"
    by (simp_all add: demo_env_sel demo_s0_def)
  then show ?thesis
    unfolding euler_step_def Let_def
    by (simp only: dhw_body_1 bindE_Inr) (simp add: demo_s0_def dhw_s1_def)
qed

lemma dhw_step_2: "euler_step (demo_sim True) dhw_flow demo_env 2 dhw_s1 = Inr dhw_s2"
proof -
  have "time_values demo_env ! (2 - 1) = 10" "Ttank_values dhw_s1 ! (2 - 1) = 326"
    "pump_status dhw_s1 = On"
    by (simp_all add: demo_env_sel dhw_s1_def)
  then show ?thesis
    unfolding euler_step_def Let_def
    by (simp only: dhw_body_2 bindE_Inr) (simp add: dhw_s1_def dhw_s2_def)
qed

lemma dhw_loop: "euler_loop (demo_sim True) dhw_flow demo_env [1..<3] demo_s0 = Inr dhw_s2"
  by (simp only: upt_1_3 euler_loop.simps dhw_step_1 dhw_step_2 bindE_Inr)

lemma dhw_return: "euler_return (demo_sim True) 3 demo_env dhw_s2 = dhw_result"
  by (simp add: euler_return_def demo_env_sel demo_sim_sel dhw_s2_def dhw_result_def
      numeral_3_eq_3)

lemma dhw_euler: "euler (demo_sim True) dhw_flow = Inr dhw_result"
  by (simp only: euler_def demo_setup bindE_Inr prod.case dhw_loop dhw_return)

text \<open>
  Claim C5. With DHW enabled the heat draw is computed and enters the temperature
  update, but no pass of the loop stores it: in the small run the draw of the first pass
  is \<open>10\<close> W (the tank falls to 326 K instead of 327 K) and the returned DHW series is
  all zeros.
\<close>

theorem dhw_draw_is_never_recorded:
  "euler (demo_sim True) dhw_flow = Inr dhw_result
   \<and> res_QDHW dhw_result = Series [0, 0, 0]
   \<and> res_Ttank dhw_result = [310, 326, 308.8]
   \<and> euler_body (demo_sim True) dhw_flow demo_env On 0 310 =
        Inr \<lparr>new_status = On, out_Qload = 100, out_Qtransfer = 300, out_Qloss = 30,
             out_COP = 4, out_Pin = 75, out_QDHW = 10, out_Ttank = 326\<rparr>
   \<and> dhw_flow 0 * 4186 * (310 - 300) = 10"
  using dhw_euler dhw_body_1 by (simp add: dhw_result_def dhw_flow_def)

lemma zero_cop_body:
  "euler_body zero_cop_sim dhw demo_env On 0 310 =
     Inr \<lparr>new_status = On, out_Qload = 100, out_Qtransfer = 300, out_Qloss = 30,
          out_COP = 0, out_Pin = 0, out_QDHW = 0, out_Ttank = 327\<rparr>"
  by (simp add: euler_body_def zero_cop_sim_def demo_env_sel update_pump_status_def demo_Qload
      demo_Qtransfer demo_Qloss COP_def demo_lookups Let_def)

theorem pump_off_and_power_input_witness:
  "euler (demo_sim False) (\<lambda>t. 0) = Inr demo_result
   \<and> (1::nat) \<le> 2 \<and> 2 < length (res_Ttank demo_result)
   \<and> pump_after demo_env (pump_status demo_s0) (take 2 (res_Ttank demo_result)) = Off
   \<and> res_cop demo_result ! 2 = 0 \<and> res_Qtransfer demo_result ! 2 = 0
   \<and> res_Pin demo_result ! 2 = 0
   \<and> euler_body zero_cop_sim (\<lambda>t. 0) demo_env On 0 310 =
        Inr \<lparr>new_status = On, out_Qload = 100, out_Qtransfer = 300, out_Qloss = 30,
             out_COP = 0, out_Pin = 0, out_QDHW = 0, out_Ttank = 327\<rparr>"
proof -
  have h1: "euler (demo_sim False) (\<lambda>t. 0) = Inr demo_result" by (rule demo_euler)
  have h2: "(1::nat) \<le> 2" by simp
  have h3: "2 < length (res_Ttank demo_result)" by (simp add: demo_result_sel)
  from pump_off_and_power_input [OF h1 h2 h3] obtain N env s0 where
    su: "euler_setup (demo_sim False) = Inr (N, env, s0)"
    and off: "pump_after env (pump_status s0) (take 2 (res_Ttank demo_result)) = Off \<longrightarrow>
          res_cop demo_result ! 2 = 0 \<and> res_Qtransfer demo_result ! 2 = 0"
    and pin: "res_Pin demo_result ! 2 =
          (if res_cop demo_result ! 2 > 0
           then res_Qtransfer demo_result ! 2 / res_cop demo_result ! 2 else 0)"
    by blast
  from su have env: "env = demo_env" and s0: "s0 = demo_s0"
    by (simp_all add: demo_setup)
  have mode: "pump_after demo_env (pump_status demo_s0) (take 2 (res_Ttank demo_result)) = Off"
    by (simp add: pump_after_def update_pump_status_def demo_env_sel demo_s0_def demo_result_sel)
  with off have z: "res_cop demo_result ! 2 = 0" "res_Qtransfer demo_result ! 2 = 0"
    by (simp_all add: env s0)
  with pin have p: "res_Pin demo_result ! 2 = 0" by simp
  from h1 h2 h3 mode z p zero_cop_body show ?thesis by blast
qed



section \<open>The aggregator on a run, and a run after a failed calibration\<close>

lemma demo_total_energy:
  "calculate_total_energy_consumption (PyList (res_Pin demo_result)) (PyList (res_time demo_result))
     = Inr (75 * (10 / 3600))"
  by (simp add: calculate_total_energy_consumption_def demo_result_sel seq_len_def seq_index_def
      length_concat_replicate concat_replicate_nth upt_1_3)

lemma demo_total_transfer:
  "calculate_total_heat_transfer (PyList (res_Qtransfer demo_result)) (PyList (res_time demo_result))
     = Inr (300 * (10 / 3600))"
  by (simp add: calculate_total_heat_transfer_def demo_result_sel seq_len_def seq_index_def
      length_concat_replicate concat_replicate_nth upt_1_3)

lemma demo_total_load:
  "calculate_total_heat_loss (PyList (res_heat_load demo_result)) (PyList (res_time demo_result))
     = Inr (200 * (10 / 3600))"
  by (simp add: calculate_total_heat_loss_def demo_result_sel seq_len_def seq_index_def
      length_concat_replicate concat_replicate_nth upt_1_3)

lemma demo_performance:
  "calculate_performance (res_time demo_result) (res_Ttank demo_result) (res_heat_load demo_result)
     (res_heat_loss demo_result) (res_cop demo_result) (res_Pin demo_result)
     (res_Qtransfer demo_result) = Inr (75 * (10 / 3600), 200 / 3, 300)"
  unfolding calculate_performance_def
  by (simp only: demo_total_energy demo_total_transfer demo_total_load bindE_Inr)
     (simp add: calculate_total_eff_def Qmax_def demo_result_sel)

lemma demo_simulate:
  "simulate (demo_sim False) dhw =
     Inr (store_values (res_time demo_result) (res_Ttank demo_result) (res_heat_load demo_result)
            (res_heat_loss demo_result) (res_cop demo_result) (res_Pin demo_result)
            (75 * (10 / 3600)) (200 / 3) 300 (res_QDHW demo_result))"
  unfolding simulate_def
  by (simp only: demo_euler bindE_Inr demo_performance prod.case)

text \<open>
  Claim C1. The integrals are documented to take times in hours, convert them to
  seconds and return Joules. On the Python lists that the aggregator passes,
  \<open>time_values * 3600\<close> repeats the list and converts nothing: for the powers \<open>[0, 1000]\<close> W
  at the hours \<open>[0, 1]\<close> each of the three integrals returns \<open>1000\<close>, where the sum over
  seconds, which the same call on numpy arrays returns, is \<open>3600000\<close>. In the small run
  the pump draws 75 W for 10 s, that is 750 J; \<open>simulate\<close> stores
  \<open>75 * (10 / 3600)\<close> as the total energy consumption.
\<close>

theorem aggregate_integrals_on_lists_skip_the_conversion:
  "calculate_total_energy_consumption (PyList [0, 1000]) (PyList [0, 1]) = Inr 1000
   \<and> calculate_total_heat_transfer (PyList [0, 1000]) (PyList [0, 1]) = Inr 1000
   \<and> calculate_total_heat_loss (PyList [0, 1000]) (PyList [0, 1]) = Inr 1000
   \<and> calculate_total_energy_consumption (NdArray [0, 1000]) (NdArray [0, 1]) = Inr 3600000
   \<and> euler (demo_sim False) (\<lambda>t. 0) = Inr demo_result
   \<and> res_Pin demo_result = [0, 75, 0]
   \<and> res_time demo_result = [0, 10 / 3600, 20 / 3600]
   \<and> simulate (demo_sim False) (\<lambda>t. 0) =
        Inr (store_values (res_time demo_result) (res_Ttank demo_result)
               (res_heat_load demo_result) (res_heat_loss demo_result) (res_cop demo_result)
               (res_Pin demo_result) (75 * (10 / 3600)) (200 / 3) 300 (res_QDHW demo_result))
   \<and> Total_Energy_Consumption
         (store_values (res_time demo_result) (res_Ttank demo_result)
            (res_heat_load demo_result) (res_heat_loss demo_result) (res_cop demo_result)
            (res_Pin demo_result) (75 * (10 / 3600)) (200 / 3) 300 (res_QDHW demo_result))
       = 75 * (10 / 3600)"
proof -
  have "calculate_total_energy_consumption (PyList [0, 1000]) (PyList [0, 1]) = Inr 1000
   \<and> calculate_total_heat_transfer (PyList [0, 1000]) (PyList [0, 1]) = Inr 1000
   \<and> calculate_total_heat_loss (PyList [0, 1000]) (PyList [0, 1]) = Inr 1000
   \<and> calculate_total_energy_consumption (NdArray [0, 1000]) (NdArray [0, 1]) = Inr 3600000"
    by (simp add: calculate_total_energy_consumption_def calculate_total_heat_transfer_def
        calculate_total_heat_loss_def seq_len_def seq_index_def length_concat_replicate
        concat_replicate_nth)
  moreover have "Total_Energy_Consumption
         (store_values (res_time demo_result) (res_Ttank demo_result)
            (res_heat_load demo_result) (res_heat_loss demo_result) (res_cop demo_result)
            (res_Pin demo_result) (75 * (10 / 3600)) (200 / 3) 300 (res_QDHW demo_result))
       = 75 * (10 / 3600)"
    by (simp add: store_values_def)
  ultimately show ?thesis
    using demo_euler demo_simulate demo_result_sel(5,7) by blast
qed

lemma uncalibrated_sel:
  "inputValues uncalibrated_sim = demo_store" "interpolated_data uncalibrated_sim = (\<lambda>t. 280)"
  "sim_fit_a uncalibrated_sim = None" "sim_fit_b uncalibrated_sim = None"
  "RHratio uncalibrated_sim = 2" "DHW uncalibrated_sim = False"
  by (simp_all add: uncalibrated_sim_def Simulator_init_def ManufacturerCOP_init_def)

lemma uncalibrated_setup: "euler_setup uncalibrated_sim = Inr (3, demo_env, demo_s0)"
  by (simp add: euler_setup_def uncalibrated_sel demo_lookups demo_tank_SA Let_def linspace_def
      demo_env_def demo_s0_def numeral_3_eq_3)

lemma uncalibrated_body:
  "euler_body uncalibrated_sim dhw demo_env On 0 310 = Inl TypeError"
  by (simp add: euler_body_def uncalibrated_sel demo_env_sel update_pump_status_def demo_Qload
      demo_Qtransfer demo_Qloss COP_def demo_lookups Let_def)

lemma uncalibrated_step: "euler_step uncalibrated_sim dhw demo_env 1 demo_s0 = Inl TypeError"
proof -
  have "time_values demo_env ! (1 - 1) = 0" "Ttank_values demo_s0 ! (1 - 1) = 310"
    "pump_status demo_s0 = On"
    by (simp_all add: demo_env_sel demo_s0_def)
  then show ?thesis
    unfolding euler_step_def Let_def
    by (simp only: uncalibrated_body bindE_Inl)
qed

lemma uncalibrated_euler: "euler uncalibrated_sim dhw = Inl TypeError"
  by (simp only: euler_def uncalibrated_setup bindE_Inr prod.case upt_1_3 euler_loop.simps
      uncalibrated_step bindE_Inl)


text \<open>
  Claim C6. A calibration on fewer than two observations should fail and stop the
  program before any simulation; the docstring of \<open>get_cop_parameters\<close> promises an
  exception. The code does not do so: with a single observation, on which scipy's
  \<open>curve_fit\<close> raises TypeError, the call returns with the exception printed and no
  parameter set. The simulator is then built from the unchanged object, and the failure
  shows only inside the run, as a TypeError at the first pass with the pump on.
\<close>

theorem calibration_on_one_observation_returns:
  "get_cop_parameters (ManufacturerCOP_init ''heat_pump_cop_synthetic_full.yaml'')
       (Inr [(7, 3.5)]) (\<lambda>deltaT copNoisy. Inl TypeError) 338.15
     = Inr (ManufacturerCOP_init ''heat_pump_cop_synthetic_full.yaml'', [TypeError])
   \<and> sim_fit_a uncalibrated_sim = None \<and> sim_fit_b uncalibrated_sim = None
   \<and> euler_setup uncalibrated_sim = Inr (3, demo_env, demo_s0)
   \<and> euler uncalibrated_sim (\<lambda>t. 0) = Inl TypeError"
proof -
  have "get_cop_parameters (ManufacturerCOP_init ''heat_pump_cop_synthetic_full.yaml'')
       (Inr [(7, 3.5)]) (\<lambda>deltaT copNoisy. Inl TypeError) 338.15
     = Inr (ManufacturerCOP_init ''heat_pump_cop_synthetic_full.yaml'', [TypeError])"
    by (simp add: get_cop_parameters_def cop_fit_def)
  with uncalibrated_sel(3,4) uncalibrated_setup uncalibrated_euler show ?thesis by blast
qed

end
